theory Spec2Isabelle
  imports Complex_Main
begin

section \<open>Values shared by the node and the message utilities\<close>

text \<open>
  The C++ sources compute with \<open>double\<close>. Every value the functions below handle is
  copied from an input or is one of the literals \<open>0.0\<close>, \<open>0.13\<close> and \<open>1.0\<close>; no
  arithmetic is done on them, so they are modelled as \<open>real\<close>. Indices and identifiers are
  C++ \<open>int\<close>; they are modelled as \<open>int\<close>, and every subscript is checked against the
  size of the container it reads or writes: a subscript outside the container is undefined
  behaviour in the source and an \<open>error\<close> value here.

  Record fields keep the names of the C++ members without the trailing underscore
  (\<open>stop_node_\<close> is \<open>stop_node\<close>), since a name may not end in an underscore; the
  vectors \<open>q_joint_\<close> and \<open>q_\<close> of the node are \<open>m_q_joint\<close> and \<open>m_q\<close>, since
  \<open>q_joint\<close> and \<open>q\<close> name arguments of the utilities.
\<close>

datatype Vector3 = Vector3 (vec_x: real) (vec_y: real) (vec_z: real)

datatype Quaternion = Quaternion (quat_x: real) (quat_y: real) (quat_z: real) (quat_w: real)

datatype error =
    NameIndexOutOfRange
  | JointIndexOutOfRange
  | ConfigurationIndexOutOfRange

text \<open>\<open>geometry_msgs::TransformStamped\<close>: the two members the node reads.\<close>

record TransformStamped =
  translation :: Vector3
  rotation :: Quaternion

text \<open>\<open>sensor_msgs::JointState\<close>: the two members the node reads.\<close>

record JointState =
  js_name :: "string list"
  js_position :: "real list"

text \<open>
  \<open>tf::Transform\<close>, as far as the node uses it: the origin given to \<open>setOrigin\<close> and the
  quaternion given to \<open>setRotation\<close>.
\<close>

record Transform =
  tf_origin :: Vector3
  tf_rotation :: Quaternion

text \<open>
  The robot definition (\<open>valkyrie::\<close>, \<open>valkyrie_joint::\<close>, \<open>valkyrie_link::\<close> and
  \<open>val::joint_names_to_indices\<close>) is declared in headers that are not part of the
  sources; it is a parameter of every function that uses one of its constants.
\<close>

record Valkyrie_Definition =
  num_q :: nat
  num_act_joint :: nat
  num_virtual :: nat
  joint_names_to_indices :: "string \<rightharpoonup> int"
  virtual_X :: int
  virtual_Y :: int
  virtual_Z :: int
  virtual_Rx :: int
  virtual_Ry :: int
  virtual_Rz :: int
  virtual_Rw :: int
  leftShoulderPitch :: int
  leftShoulderRoll :: int
  leftShoulderYaw :: int
  leftElbowPitch :: int
  leftForearmYaw :: int
  rightShoulderPitch :: int
  rightShoulderRoll :: int
  rightShoulderYaw :: int
  rightElbowPitch :: int
  rightForearmYaw :: int
  lowerNeckPitch :: int
  neckYaw :: int
  upperNeckPitch :: int
  pelvis :: int
  torso :: int
  rightCOP_Frame :: int
  leftCOP_Frame :: int
  rightPalm :: int
  leftPalm :: int
  head :: int

section \<open>The interface node: state and handlers\<close>

record IHMCInterfaceNode =
  commands_from_controllers :: bool
  receive_pelvis_transform :: bool
  receive_joint_command :: bool
  receive_link_ids :: bool
  received_pelvis_transform :: bool
  received_joint_command :: bool
  received_link_ids :: bool
  publish_commands :: bool
  stop_node :: bool
  home_left_arm :: bool
  home_right_arm :: bool
  home_chest :: bool
  home_pelvis :: bool
  publish_go_home_command :: bool
  status :: string
  controlled_links :: "int list"
  tf_pelvis_wrt_world :: Transform
  m_q_joint :: "real list"
  m_q :: "real list"

text \<open>
  The constructor, after the parameter \<open>commands_from_controllers\<close> has been read. The
  member \<open>tf_pelvis_wrt_world_\<close> is default-constructed and holds whatever \<open>tf0\<close> the
  library leaves there; the two Eigen vectors start empty.
\<close>

definition constructNode :: "Valkyrie_Definition \<Rightarrow> bool \<Rightarrow> Transform \<Rightarrow> IHMCInterfaceNode" where
  "constructNode d from_controllers tf0 =
     (if from_controllers then
        \<lparr> commands_from_controllers = True,
          receive_pelvis_transform = False,
          receive_joint_command = False,
          receive_link_ids = False,
          received_pelvis_transform = False,
          received_joint_command = False,
          received_link_ids = False,
          publish_commands = False,
          stop_node = False,
          home_left_arm = False,
          home_right_arm = False,
          home_chest = False,
          home_pelvis = False,
          publish_go_home_command = False,
          status = [],
          controlled_links = [],
          tf_pelvis_wrt_world = tf0,
          m_q_joint = [],
          m_q = [] \<rparr>
      else
        \<lparr> commands_from_controllers = False,
          receive_pelvis_transform = True,
          receive_joint_command = True,
          receive_link_ids = False,
          received_pelvis_transform = False,
          received_joint_command = False,
          received_link_ids = True,
          publish_commands = False,
          stop_node = False,
          home_left_arm = False,
          home_right_arm = False,
          home_chest = False,
          home_pelvis = False,
          publish_go_home_command = False,
          status = [],
          controlled_links =
            [pelvis d, torso d, rightCOP_Frame d, leftCOP_Frame d, rightPalm d, leftPalm d, head d],
          tf_pelvis_wrt_world = tf0,
          m_q_joint = [],
          m_q = [] \<rparr>)"

definition getStatus :: "IHMCInterfaceNode \<Rightarrow> string" where
  "getStatus s = status s"

definition getCommandsFromControllersFlag :: "IHMCInterfaceNode \<Rightarrow> bool" where
  "getCommandsFromControllersFlag s = commands_from_controllers s"

definition getPublishCommandsFlag :: "IHMCInterfaceNode \<Rightarrow> bool" where
  "getPublishCommandsFlag s = publish_commands s"

definition updatePublishCommandsFlag :: "IHMCInterfaceNode \<Rightarrow> IHMCInterfaceNode" where
  "updatePublishCommandsFlag s =
     s\<lparr>publish_commands :=
         received_pelvis_transform s \<and> received_link_ids s \<and> received_joint_command s\<rparr>"

definition getStopNodeFlag :: "IHMCInterfaceNode \<Rightarrow> bool" where
  "getStopNodeFlag s = stop_node s"

definition updateStopNodeFlag :: "IHMCInterfaceNode \<Rightarrow> IHMCInterfaceNode" where
  "updateStopNodeFlag s =
     s\<lparr>stop_node := \<not> receive_pelvis_transform s \<and> \<not> receive_joint_command s\<rparr>"

definition getPublishGoHomeCommandFlag :: "IHMCInterfaceNode \<Rightarrow> bool" where
  "getPublishGoHomeCommandFlag s = publish_go_home_command s"

definition updatePublishGoHomeCommandFlag :: "IHMCInterfaceNode \<Rightarrow> IHMCInterfaceNode" where
  "updatePublishGoHomeCommandFlag s =
     s\<lparr>publish_go_home_command :=
         home_left_arm s \<or> home_right_arm s \<or> home_chest s \<or> home_pelvis s\<rparr>"

definition transformCallback :: "TransformStamped \<Rightarrow> IHMCInterfaceNode \<Rightarrow> IHMCInterfaceNode" where
  "transformCallback tf_msg s =
     updateStopNodeFlag (updatePublishCommandsFlag
       (if receive_pelvis_transform s then
          (let s1 = s\<lparr>tf_pelvis_wrt_world :=
                        \<lparr>tf_origin = Vector3 (vec_x (translation tf_msg))
                                             (vec_y (translation tf_msg))
                                             (vec_z (translation tf_msg)),
                         tf_rotation = Quaternion (quat_x (rotation tf_msg))
                                                  (quat_y (rotation tf_msg))
                                                  (quat_z (rotation tf_msg))
                                                  (quat_w (rotation tf_msg))\<rparr>,
                      received_pelvis_transform := True\<rparr>
           in if \<not> commands_from_controllers s1
              then s1\<lparr>receive_pelvis_transform := False\<rparr> else s1)
        else s))"

text \<open>
  \<open>controlledLinkIdsCallback\<close> clears the vector and pushes every element of the array in
  order, which leaves a copy of the array.
\<close>

definition controlledLinkIdsCallback :: "int list \<Rightarrow> IHMCInterfaceNode \<Rightarrow> IHMCInterfaceNode" where
  "controlledLinkIdsCallback arr_data s =
     updateStopNodeFlag (updatePublishCommandsFlag
       (if receive_link_ids s then
          (let s1 = s\<lparr>controlled_links := [] @ arr_data, received_link_ids := True\<rparr>
           in if \<not> commands_from_controllers s1
              then s1\<lparr>receive_link_ids := False\<rparr> else s1)
        else s))"

text \<open>
  The loop of \<open>jointCommandCallback\<close>: \<open>i\<close> runs over \<open>js_msg.position\<close> and reads
  \<open>js_msg.name[i]\<close>, so the two lists are walked in step. Reading a name past the end of
  \<open>js_msg.name\<close> and writing \<open>q_joint_[jidx]\<close> outside the vector are errors.
\<close>

fun setJointPositions ::
  "Valkyrie_Definition \<Rightarrow> string list \<Rightarrow> real list \<Rightarrow> real list \<Rightarrow> error + real list" where
  "setJointPositions d names [] qj = Inr qj"
| "setJointPositions d [] (p # ps) qj = Inl NameIndexOutOfRange"
| "setJointPositions d (n # names) (p # ps) qj =
     (case joint_names_to_indices d n of
        None \<Rightarrow> setJointPositions d names ps qj
      | Some k \<Rightarrow>
          (let jidx = k - int (num_virtual d)
           in if 0 \<le> jidx \<and> nat jidx < length qj
              then setJointPositions d names ps (qj[nat jidx := p])
              else Inl JointIndexOutOfRange))"

definition jointCommandCallback ::
  "Valkyrie_Definition \<Rightarrow> JointState \<Rightarrow> IHMCInterfaceNode \<Rightarrow> error + IHMCInterfaceNode" where
  "jointCommandCallback d js_msg s =
     (if receive_joint_command s then
        (case setJointPositions d (js_name js_msg) (js_position js_msg)
                (replicate (num_act_joint d) 0) of
           Inl e \<Rightarrow> Inl e
         | Inr qj \<Rightarrow>
             (let s1 = s\<lparr>m_q_joint := qj, received_joint_command := True\<rparr>;
                  s2 = (if \<not> commands_from_controllers s1
                        then s1\<lparr>receive_joint_command := False\<rparr> else s1)
              in Inr (updateStopNodeFlag (updatePublishCommandsFlag s2))))
      else Inr (updateStopNodeFlag (updatePublishCommandsFlag s)))"

definition statusCallback :: "string \<Rightarrow> IHMCInterfaceNode \<Rightarrow> IHMCInterfaceNode" where
  "statusCallback status_data s =
     (if status_data = ''STOP-LISTENING'' then
        updateStopNodeFlag (updatePublishCommandsFlag
          (s\<lparr>status := status_data,
             receive_pelvis_transform := False,
             received_pelvis_transform := False,
             receive_link_ids := False,
             received_link_ids := False,
             receive_joint_command := False,
             received_joint_command := False\<rparr>))
      else if status_data = ''START-LISTENING'' then
        updateStopNodeFlag (updatePublishCommandsFlag
          (s\<lparr>status := status_data,
             receive_pelvis_transform := True,
             received_pelvis_transform := False,
             receive_link_ids := True,
             received_link_ids := False,
             receive_joint_command := True,
             received_joint_command := False\<rparr>))
      else if status_data = ''HOME-LEFTARM'' then
        updatePublishGoHomeCommandFlag (s\<lparr>status := status_data, home_left_arm := True\<rparr>)
      else if status_data = ''HOME-RIGHTARM'' then
        updatePublishGoHomeCommandFlag (s\<lparr>status := status_data, home_right_arm := True\<rparr>)
      else if status_data = ''HOME-CHEST'' then
        updatePublishGoHomeCommandFlag (s\<lparr>status := status_data, home_chest := True\<rparr>)
      else if status_data = ''HOME-PELVIS'' then
        updatePublishGoHomeCommandFlag (s\<lparr>status := status_data, home_pelvis := True\<rparr>)
      else s)"

subsection \<open>Sequences of inbound messages\<close>

text \<open>
  The transport runs one subscriber callback at a time (\<open>ros::spinOnce\<close>); a run of the
  node's handlers is a list of inbound messages, handled in order. The node subscribes to
  the controlled links and to the controller status only when its commands come from the
  controllers; a run may hold any message in either mode, which covers both.
\<close>

datatype inbound =
    PelvisTransform TransformStamped
  | ControlledLinkIds "int list"
  | JointCommand JointState
  | ControllerStatus string

fun handle :: "Valkyrie_Definition \<Rightarrow> inbound \<Rightarrow> IHMCInterfaceNode \<Rightarrow> error + IHMCInterfaceNode" where
  "handle d (PelvisTransform tf_msg) s = Inr (transformCallback tf_msg s)"
| "handle d (ControlledLinkIds arr_data) s = Inr (controlledLinkIdsCallback arr_data s)"
| "handle d (JointCommand js_msg) s = jointCommandCallback d js_msg s"
| "handle d (ControllerStatus status_data) s = Inr (statusCallback status_data s)"

fun handleAll ::
  "Valkyrie_Definition \<Rightarrow> inbound list \<Rightarrow> IHMCInterfaceNode \<Rightarrow> error + IHMCInterfaceNode" where
  "handleAll d [] s = Inr s"
| "handleAll d (m # ms) s =
     (case handle d m s of Inl e \<Rightarrow> Inl e | Inr s' \<Rightarrow> handleAll d ms s')"

section \<open>The message utilities\<close>

text \<open>
  \<open>IHMCMessageParameters\<close> is declared in the header of the utilities, which is not part
  of the sources. The record has one field for each member the sources read or write;
  \<open>msg_params.queueable_params.execution_mode\<close> is the field
  \<open>queueable_params_execution_mode\<close>, and so on. The values a default-constructed
  parameter struct holds are a parameter of the functions that constructNode one.
\<close>

record IHMCMessageParameters =
  params_sequence_id :: int
  params_controlled_links :: "int list"
  arm_params_force_execution :: bool
  frame_params_trajectory_reference_frame_id_pelviszup :: int
  frame_params_trajectory_reference_frame_id_world :: int
  frame_params_data_reference_frame_id_world :: int
  queueable_params_execution_mode :: int
  queueable_params_message_id :: int
  queueable_params_previous_message_id :: int
  queueable_params_stream_integration_duration :: real
  onedof_joint_params_weight :: real
  pelvis_params_force_execution :: bool
  pelvis_params_enable_user_pelvis_control :: bool
  pelvis_params_enable_user_pelvis_control_during_walking :: bool
  se3so3_params_use_custom_control_frame :: bool
  selection_matrix_params_selection_frame_id :: int
  selection_matrix_params_x_selected :: bool
  selection_matrix_params_y_selected :: bool
  selection_matrix_params_z_selected :: bool
  weight_matrix_params_weight_frame_id :: int
  weight_matrix_params_x_weight :: real
  weight_matrix_params_y_weight :: real
  weight_matrix_params_z_weight :: real
  traj_point_params_time :: real
  go_home_params_trajectory_time :: real

subsection \<open>The messages\<close>

text \<open>
  Each \<open>make\<close> function of the sources fills a message passed by reference, and every
  caller passes a message that was just default-constructed (or a member of one). The
  model returns the message instead. It has the members the function writes; a member
  that is written on one branch only is an \<open>option\<close>, \<open>None\<close> where the function leaves
  the default-constructed member untouched.
\<close>

record TrajectoryPoint1DMessage =
  tp1d_sequence_id :: int
  tp1d_time :: real
  tp1d_position :: real
  tp1d_velocity :: real

record OneDoFJointTrajectoryMessage =
  onedof_sequence_id :: int
  onedof_weight :: real
  onedof_trajectory_points :: "TrajectoryPoint1DMessage list"

record QueueableMessage =
  queueable_sequence_id :: int
  execution_mode :: int
  message_id :: int
  previous_message_id :: "int option"
  stream_integration_duration :: "real option"
  timestamp :: int

record JointspaceTrajectoryMessage =
  jointspace_sequence_id :: int
  jointspace_queueing_properties :: QueueableMessage
  joint_trajectory_messages :: "OneDoFJointTrajectoryMessage list"

record ArmTrajectoryMessage =
  arm_sequence_id :: int
  arm_robot_side :: int
  arm_force_execution :: bool
  arm_jointspace_trajectory :: JointspaceTrajectoryMessage

record NeckTrajectoryMessage =
  neck_sequence_id :: int
  neck_jointspace_trajectory :: JointspaceTrajectoryMessage

record FrameInformation =
  frame_sequence_id :: int
  trajectory_reference_frame_id :: int
  data_reference_frame_id :: int

record SelectionMatrix3DMessage =
  selmat_sequence_id :: int
  selection_frame_id :: int
  x_selected :: bool
  y_selected :: bool
  z_selected :: bool

record WeightMatrix3DMessage =
  wmat_sequence_id :: int
  weight_frame_id :: int
  x_weight :: real
  y_weight :: real
  z_weight :: real

record Pose =
  pose_position :: Vector3
  pose_orientation :: Quaternion

record SO3TrajectoryPointMessage =
  so3_point_sequence_id :: int
  so3_point_time :: real
  so3_point_orientation :: Quaternion
  so3_point_angular_velocity :: Vector3

record SE3TrajectoryPointMessage =
  se3_point_sequence_id :: int
  se3_point_time :: real
  se3_point_position :: Vector3
  se3_point_orientation :: Quaternion
  se3_point_linear_velocity :: Vector3
  se3_point_angular_velocity :: Vector3

record SO3TrajectoryMessage =
  so3_sequence_id :: int
  so3_use_custom_control_frame :: bool
  so3_control_frame_pose :: Pose
  so3_queueing_properties :: QueueableMessage
  so3_frame_information :: FrameInformation
  so3_selection_matrix :: SelectionMatrix3DMessage
  so3_weight_matrix :: WeightMatrix3DMessage
  so3_taskspace_trajectory_points :: "SO3TrajectoryPointMessage list"

record SE3TrajectoryMessage =
  se3_sequence_id :: int
  se3_use_custom_control_frame :: bool
  se3_control_frame_pose :: Pose
  se3_queueing_properties :: QueueableMessage
  se3_frame_information :: FrameInformation
  se3_angular_selection_matrix :: SelectionMatrix3DMessage
  se3_linear_selection_matrix :: SelectionMatrix3DMessage
  se3_angular_weight_matrix :: WeightMatrix3DMessage
  se3_linear_weight_matrix :: WeightMatrix3DMessage
  se3_taskspace_trajectory_points :: "SE3TrajectoryPointMessage list"

record ChestTrajectoryMessage =
  chest_sequence_id :: int
  chest_so3_trajectory :: SO3TrajectoryMessage

record PelvisTrajectoryMessage =
  pelvis_sequence_id :: int
  pelvis_force_execution :: bool
  pelvis_enable_user_pelvis_control :: bool
  pelvis_enable_user_pelvis_control_during_walking :: bool
  pelvis_se3_trajectory :: SE3TrajectoryMessage

record WholeBodyTrajectoryMessage =
  wholebody_sequence_id :: int
  left_arm_trajectory_message :: "ArmTrajectoryMessage option"
  right_arm_trajectory_message :: "ArmTrajectoryMessage option"
  chest_trajectory_message :: "ChestTrajectoryMessage option"
  pelvis_trajectory_message :: "PelvisTrajectoryMessage option"
  neck_trajectory_message :: "NeckTrajectoryMessage option"

text \<open>The named constants of \<open>controller_msgs::GoHomeMessage\<close> that the sources use.\<close>

datatype humanoid_body_part =
    HUMANOID_BODY_PART_ARM
  | HUMANOID_BODY_PART_CHEST
  | HUMANOID_BODY_PART_PELVIS

datatype robot_side = ROBOT_SIDE_LEFT | ROBOT_SIDE_RIGHT

record GoHomeMessage =
  humanoid_body_part :: humanoid_body_part
  robot_side :: "robot_side option"
  trajectory_time :: real

subsection \<open>Collaborators outside the sources\<close>

text \<open>
  The body parts of a whole-body message; each one that is assembled holds one
  \<open>QueueableMessage\<close>, whose timestamp is one reading of the system clock.
\<close>

datatype body_part = LeftArm | RightArm | Chest | Pelvis | Neck

text \<open>
  What the sources take from libraries and headers outside them: the default-constructed
  parameter struct, the pose that \<open>ROSMsgUtils::makeZeroPoseMessage\<close> writes, the chest
  orientation the robot model \<open>Valkyrie_Model\<close> computes for a configuration, the
  quaternion that \<open>tf::Transform::getRotation\<close> and \<open>dynacore::convert\<close> return for the
  quaternion stored with \<open>setRotation\<close>, and the clock reading taken while a body part
  is assembled.
\<close>

record External =
  default_IHMCMessageParameters :: IHMCMessageParameters
  makeZeroPoseMessage :: Pose
  Valkyrie_Model_getOri_torso :: "real list \<Rightarrow> Quaternion"
  getRotation_convert :: "Quaternion \<Rightarrow> Quaternion"
  system_clock_now :: "body_part \<Rightarrow> int"

text \<open>
  Modelled from the spec: \<open>ROSMsgUtils\<close> is part of this repository but not of the
  sources. The spec has the trajectory point carry the given position and orientation as
  its target and zero linear and angular velocity, so \<open>makePointMessage\<close> and
  \<open>makeQuaternionMessage\<close> copy their argument and \<open>makeZeroVector3Message\<close> writes the
  zero vector.
\<close>

definition makePointMessage :: "Vector3 \<Rightarrow> Vector3" where
  "makePointMessage pos = Vector3 (vec_x pos) (vec_y pos) (vec_z pos)"

definition makeQuaternionMessage :: "Quaternion \<Rightarrow> Quaternion" where
  "makeQuaternionMessage quat = Quaternion (quat_x quat) (quat_y quat) (quat_z quat) (quat_w quat)"

definition makeZeroVector3Message :: Vector3 where
  "makeZeroVector3Message = Vector3 0 0 0"

subsection \<open>Functions for making messages\<close>

definition makeIHMCTrajectoryPoint1DMessage ::
  "real \<Rightarrow> IHMCMessageParameters \<Rightarrow> TrajectoryPoint1DMessage" where
  "makeIHMCTrajectoryPoint1DMessage q_joint msg_params =
     \<lparr> tp1d_sequence_id = params_sequence_id msg_params,
       tp1d_time = traj_point_params_time msg_params,
       tp1d_position = q_joint,
       tp1d_velocity = 0 \<rparr>"

definition makeIHMCOneDoFJointTrajectoryMessage ::
  "real \<Rightarrow> IHMCMessageParameters \<Rightarrow> OneDoFJointTrajectoryMessage" where
  "makeIHMCOneDoFJointTrajectoryMessage q_joint msg_params =
     \<lparr> onedof_sequence_id = params_sequence_id msg_params,
       onedof_weight = onedof_joint_params_weight msg_params,
       onedof_trajectory_points = [] @ [makeIHMCTrajectoryPoint1DMessage q_joint msg_params] \<rparr>"

definition makeIHMCQueueableMessage :: "int \<Rightarrow> IHMCMessageParameters \<Rightarrow> QueueableMessage" where
  "makeIHMCQueueableMessage now msg_params =
     \<lparr> queueable_sequence_id = params_sequence_id msg_params,
       execution_mode = queueable_params_execution_mode msg_params,
       message_id = queueable_params_message_id msg_params,
       previous_message_id =
         (if queueable_params_execution_mode msg_params = 1
          then Some (queueable_params_previous_message_id msg_params) else None),
       stream_integration_duration =
         (if queueable_params_execution_mode msg_params = 2
          then Some (queueable_params_stream_integration_duration msg_params) else None),
       timestamp = now \<rparr>"

definition makeIHMCJointspaceTrajectoryMessage ::
  "int \<Rightarrow> real list \<Rightarrow> IHMCMessageParameters \<Rightarrow> JointspaceTrajectoryMessage" where
  "makeIHMCJointspaceTrajectoryMessage now q_joints msg_params =
     \<lparr> jointspace_sequence_id = params_sequence_id msg_params,
       jointspace_queueing_properties = makeIHMCQueueableMessage now msg_params,
       joint_trajectory_messages =
         map (\<lambda>q_i. makeIHMCOneDoFJointTrajectoryMessage q_i msg_params) q_joints \<rparr>"

definition makeIHMCArmTrajectoryMessage ::
  "int \<Rightarrow> real list \<Rightarrow> int \<Rightarrow> IHMCMessageParameters \<Rightarrow> ArmTrajectoryMessage" where
  "makeIHMCArmTrajectoryMessage now q_joints side msg_params =
     \<lparr> arm_sequence_id = params_sequence_id msg_params,
       arm_robot_side = side,
       arm_force_execution = arm_params_force_execution msg_params,
       arm_jointspace_trajectory = makeIHMCJointspaceTrajectoryMessage now q_joints msg_params \<rparr>"

definition makeIHMCNeckTrajectoryMessage ::
  "int \<Rightarrow> real list \<Rightarrow> IHMCMessageParameters \<Rightarrow> NeckTrajectoryMessage" where
  "makeIHMCNeckTrajectoryMessage now q_joints msg_params =
     \<lparr> neck_sequence_id = params_sequence_id msg_params,
       neck_jointspace_trajectory = makeIHMCJointspaceTrajectoryMessage now q_joints msg_params \<rparr>"

definition makeIHMCFrameInformationMessage ::
  "int \<Rightarrow> int \<Rightarrow> IHMCMessageParameters \<Rightarrow> FrameInformation" where
  "makeIHMCFrameInformationMessage trajectory_frame data_frame msg_params =
     \<lparr> frame_sequence_id = params_sequence_id msg_params,
       trajectory_reference_frame_id = trajectory_frame,
       data_reference_frame_id = data_frame \<rparr>"

definition makeIHMCSelectionMatrix3DMessage ::
  "IHMCMessageParameters \<Rightarrow> SelectionMatrix3DMessage" where
  "makeIHMCSelectionMatrix3DMessage msg_params =
     \<lparr> selmat_sequence_id = params_sequence_id msg_params,
       selection_frame_id = selection_matrix_params_selection_frame_id msg_params,
       x_selected = selection_matrix_params_x_selected msg_params,
       y_selected = selection_matrix_params_y_selected msg_params,
       z_selected = selection_matrix_params_z_selected msg_params \<rparr>"

definition makeIHMCWeightMatrix3DMessage :: "IHMCMessageParameters \<Rightarrow> WeightMatrix3DMessage" where
  "makeIHMCWeightMatrix3DMessage msg_params =
     \<lparr> wmat_sequence_id = params_sequence_id msg_params,
       weight_frame_id = weight_matrix_params_weight_frame_id msg_params,
       x_weight = weight_matrix_params_x_weight msg_params,
       y_weight = weight_matrix_params_y_weight msg_params,
       z_weight = weight_matrix_params_z_weight msg_params \<rparr>"

definition makeIHMCSO3TrajectoryPointMessage ::
  "Quaternion \<Rightarrow> IHMCMessageParameters \<Rightarrow> SO3TrajectoryPointMessage" where
  "makeIHMCSO3TrajectoryPointMessage quat msg_params =
     \<lparr> so3_point_sequence_id = params_sequence_id msg_params,
       so3_point_time = traj_point_params_time msg_params,
       so3_point_orientation = makeQuaternionMessage quat,
       so3_point_angular_velocity = makeZeroVector3Message \<rparr>"

definition makeIHMCSE3TrajectoryPointMessage ::
  "Vector3 \<Rightarrow> Quaternion \<Rightarrow> IHMCMessageParameters \<Rightarrow> SE3TrajectoryPointMessage" where
  "makeIHMCSE3TrajectoryPointMessage pos quat msg_params =
     \<lparr> se3_point_sequence_id = params_sequence_id msg_params,
       se3_point_time = traj_point_params_time msg_params,
       se3_point_position = makePointMessage pos,
       se3_point_orientation = makeQuaternionMessage quat,
       se3_point_linear_velocity = makeZeroVector3Message,
       se3_point_angular_velocity = makeZeroVector3Message \<rparr>"

definition makeIHMCSO3TrajectoryMessage ::
  "External \<Rightarrow> int \<Rightarrow> Quaternion \<Rightarrow> int \<Rightarrow> int \<Rightarrow> IHMCMessageParameters \<Rightarrow> SO3TrajectoryMessage" where
  "makeIHMCSO3TrajectoryMessage ext now quat trajectory_frame data_frame msg_params =
     \<lparr> so3_sequence_id = params_sequence_id msg_params,
       so3_use_custom_control_frame = se3so3_params_use_custom_control_frame msg_params,
       so3_control_frame_pose = makeZeroPoseMessage ext,
       so3_queueing_properties = makeIHMCQueueableMessage now msg_params,
       so3_frame_information =
         makeIHMCFrameInformationMessage trajectory_frame data_frame msg_params,
       so3_selection_matrix = makeIHMCSelectionMatrix3DMessage msg_params,
       so3_weight_matrix = makeIHMCWeightMatrix3DMessage msg_params,
       so3_taskspace_trajectory_points =
         [] @ [makeIHMCSO3TrajectoryPointMessage quat msg_params] \<rparr>"

definition makeIHMCSE3TrajectoryMessage ::
  "External \<Rightarrow> int \<Rightarrow> Vector3 \<Rightarrow> Quaternion \<Rightarrow> int \<Rightarrow> int \<Rightarrow> IHMCMessageParameters
     \<Rightarrow> SE3TrajectoryMessage" where
  "makeIHMCSE3TrajectoryMessage ext now pos quat trajectory_frame data_frame msg_params =
     \<lparr> se3_sequence_id = params_sequence_id msg_params,
       se3_use_custom_control_frame = se3so3_params_use_custom_control_frame msg_params,
       se3_control_frame_pose = makeZeroPoseMessage ext,
       se3_queueing_properties = makeIHMCQueueableMessage now msg_params,
       se3_frame_information =
         makeIHMCFrameInformationMessage trajectory_frame data_frame msg_params,
       se3_angular_selection_matrix = makeIHMCSelectionMatrix3DMessage msg_params,
       se3_linear_selection_matrix = makeIHMCSelectionMatrix3DMessage msg_params,
       se3_angular_weight_matrix = makeIHMCWeightMatrix3DMessage msg_params,
       se3_linear_weight_matrix = makeIHMCWeightMatrix3DMessage msg_params,
       se3_taskspace_trajectory_points =
         [] @ [makeIHMCSE3TrajectoryPointMessage pos quat msg_params] \<rparr>"

definition makeIHMCChestTrajectoryMessage ::
  "External \<Rightarrow> int \<Rightarrow> Quaternion \<Rightarrow> IHMCMessageParameters \<Rightarrow> ChestTrajectoryMessage" where
  "makeIHMCChestTrajectoryMessage ext now quat msg_params =
     \<lparr> chest_sequence_id = params_sequence_id msg_params,
       chest_so3_trajectory =
         makeIHMCSO3TrajectoryMessage ext now quat
           (frame_params_trajectory_reference_frame_id_pelviszup msg_params)
           (frame_params_data_reference_frame_id_world msg_params)
           msg_params \<rparr>"

text \<open>
  \<open>getPelvisPose\<close> reads the first seven entries of the vector it is given; on a shorter
  vector one of the reads is out of range.
\<close>

definition getPelvisPose :: "real list \<Rightarrow> error + Vector3 \<times> Quaternion" where
  "getPelvisPose q_joints =
     (if 7 \<le> length q_joints
      then Inr (Vector3 (q_joints ! 0) (q_joints ! 1) (q_joints ! 2),
                Quaternion (q_joints ! 3) (q_joints ! 4) (q_joints ! 5) (q_joints ! 6))
      else Inl ConfigurationIndexOutOfRange)"

definition makeIHMCPelvisTrajectoryMessage ::
  "External \<Rightarrow> int \<Rightarrow> real list \<Rightarrow> IHMCMessageParameters \<Rightarrow> error + PelvisTrajectoryMessage" where
  "makeIHMCPelvisTrajectoryMessage ext now q_joints msg_params =
     (case getPelvisPose q_joints of
        Inl e \<Rightarrow> Inl e
      | Inr (pelvis_pos, pelvis_quat) \<Rightarrow>
          Inr \<lparr> pelvis_sequence_id = params_sequence_id msg_params,
                pelvis_force_execution = pelvis_params_force_execution msg_params,
                pelvis_enable_user_pelvis_control =
                  pelvis_params_enable_user_pelvis_control msg_params,
                pelvis_enable_user_pelvis_control_during_walking =
                  pelvis_params_enable_user_pelvis_control_during_walking msg_params,
                pelvis_se3_trajectory =
                  makeIHMCSE3TrajectoryMessage ext now pelvis_pos pelvis_quat
                    (frame_params_trajectory_reference_frame_id_world msg_params)
                    (frame_params_data_reference_frame_id_world msg_params)
                    msg_params \<rparr>)"

definition makeIHMCHomeLeftArmMessage :: "IHMCMessageParameters \<Rightarrow> GoHomeMessage" where
  "makeIHMCHomeLeftArmMessage msg_params =
     \<lparr> humanoid_body_part = HUMANOID_BODY_PART_ARM,
       robot_side = Some ROBOT_SIDE_LEFT,
       trajectory_time = go_home_params_trajectory_time msg_params \<rparr>"

definition makeIHMCHomeRightArmMessage :: "IHMCMessageParameters \<Rightarrow> GoHomeMessage" where
  "makeIHMCHomeRightArmMessage msg_params =
     \<lparr> humanoid_body_part = HUMANOID_BODY_PART_ARM,
       robot_side = Some ROBOT_SIDE_RIGHT,
       trajectory_time = go_home_params_trajectory_time msg_params \<rparr>"

definition makeIHMCHomeChestMessage :: "IHMCMessageParameters \<Rightarrow> GoHomeMessage" where
  "makeIHMCHomeChestMessage msg_params =
     \<lparr> humanoid_body_part = HUMANOID_BODY_PART_CHEST,
       robot_side = None,
       trajectory_time = go_home_params_trajectory_time msg_params \<rparr>"

definition makeIHMCHomePelvisMessage :: "IHMCMessageParameters \<Rightarrow> GoHomeMessage" where
  "makeIHMCHomePelvisMessage msg_params =
     \<lparr> humanoid_body_part = HUMANOID_BODY_PART_PELVIS,
       robot_side = None,
       trajectory_time = go_home_params_trajectory_time msg_params \<rparr>"

subsection \<open>Helper functions\<close>

text \<open>
  \<open>selectRelevantJointsConfiguration\<close>: entry \<open>i\<close> of the result is \<open>0.0\<close> where
  \<open>joint_indices[i]\<close> is the special index \<open>-1\<close>, and \<open>q[joint_indices[i]]\<close> otherwise;
  an index outside \<open>q\<close> is an error.
\<close>

fun selectRelevantJointsConfiguration :: "real list \<Rightarrow> int list \<Rightarrow> error + real list" where
  "selectRelevantJointsConfiguration q [] = Inr []"
| "selectRelevantJointsConfiguration q (j # joint_indices) =
     (if j = - 1 then
        (case selectRelevantJointsConfiguration q joint_indices of
           Inl e \<Rightarrow> Inl e
         | Inr q_joints \<Rightarrow> Inr (0 # q_joints))
      else if 0 \<le> j \<and> nat j < length q then
        (case selectRelevantJointsConfiguration q joint_indices of
           Inl e \<Rightarrow> Inl e
         | Inr q_joints \<Rightarrow> Inr (q ! nat j # q_joints))
      else Inl ConfigurationIndexOutOfRange)"

definition getRelevantJointIndicesPelvis :: "Valkyrie_Definition \<Rightarrow> int list" where
  "getRelevantJointIndicesPelvis d =
     [virtual_X d, virtual_Y d, virtual_Z d, virtual_Rx d, virtual_Ry d, virtual_Rz d,
      virtual_Rw d]"

definition getRelevantJointIndicesLeftArm :: "Valkyrie_Definition \<Rightarrow> int list" where
  "getRelevantJointIndicesLeftArm d =
     [leftShoulderPitch d, leftShoulderRoll d, leftShoulderYaw d, leftElbowPitch d,
      leftForearmYaw d, - 1, - 1]"

definition getRelevantJointIndicesRightArm :: "Valkyrie_Definition \<Rightarrow> int list" where
  "getRelevantJointIndicesRightArm d =
     [rightShoulderPitch d, rightShoulderRoll d, rightShoulderYaw d, rightElbowPitch d,
      rightForearmYaw d, - 1, - 1]"

definition getRelevantJointIndicesNeck :: "Valkyrie_Definition \<Rightarrow> int list" where
  "getRelevantJointIndicesNeck d = [lowerNeckPitch d, neckYaw d, upperNeckPitch d]"

definition getChestOrientation :: "External \<Rightarrow> real list \<Rightarrow> Quaternion" where
  "getChestOrientation ext q = Valkyrie_Model_getOri_torso ext q"

definition checkControlledLink :: "int list \<Rightarrow> int \<Rightarrow> bool" where
  "checkControlledLink links link_id = (link_id \<in> set links)"

subsection \<open>The whole-body message\<close>

definition makeIHMCWholeBodyTrajectoryMessage ::
  "Valkyrie_Definition \<Rightarrow> External \<Rightarrow> real list \<Rightarrow> IHMCMessageParameters
     \<Rightarrow> error + WholeBodyTrajectoryMessage" where
  "makeIHMCWholeBodyTrajectoryMessage d ext q msg_params =
     (let control_pelvis = checkControlledLink (params_controlled_links msg_params) (pelvis d);
          control_chest = checkControlledLink (params_controlled_links msg_params) (torso d);
          control_rfoot =
            checkControlledLink (params_controlled_links msg_params) (rightCOP_Frame d);
          control_lfoot =
            checkControlledLink (params_controlled_links msg_params) (leftCOP_Frame d);
          control_rarm = checkControlledLink (params_controlled_links msg_params) (rightPalm d);
          control_larm = checkControlledLink (params_controlled_links msg_params) (leftPalm d);
          control_neck = checkControlledLink (params_controlled_links msg_params) (head d)
      in
      (case (if control_larm then
               (case selectRelevantJointsConfiguration q (getRelevantJointIndicesLeftArm d) of
                  Inl e \<Rightarrow> Inl e
                | Inr q_larm \<Rightarrow>
                    Inr (Some (makeIHMCArmTrajectoryMessage (system_clock_now ext LeftArm)
                                 q_larm 0 msg_params)))
             else Inr None) of
         Inl e \<Rightarrow> Inl e
       | Inr larm \<Rightarrow>
      (case (if control_rarm then
               (case selectRelevantJointsConfiguration q (getRelevantJointIndicesRightArm d) of
                  Inl e \<Rightarrow> Inl e
                | Inr q_rarm \<Rightarrow>
                    Inr (Some (makeIHMCArmTrajectoryMessage (system_clock_now ext RightArm)
                                 q_rarm 1 msg_params)))
             else Inr None) of
         Inl e \<Rightarrow> Inl e
       | Inr rarm \<Rightarrow>
      (let chest =
             (if control_chest then
                Some (makeIHMCChestTrajectoryMessage ext (system_clock_now ext Chest)
                        (getChestOrientation ext q) msg_params)
              else None)
       in
      (case (if control_pelvis then
               (case selectRelevantJointsConfiguration q (getRelevantJointIndicesPelvis d) of
                  Inl e \<Rightarrow> Inl e
                | Inr q_pelvis \<Rightarrow>
                    (case makeIHMCPelvisTrajectoryMessage ext (system_clock_now ext Pelvis)
                            q_pelvis msg_params of
                       Inl e \<Rightarrow> Inl e
                     | Inr pelvis_msg \<Rightarrow> Inr (Some pelvis_msg)))
             else Inr None) of
         Inl e \<Rightarrow> Inl e
       | Inr pelvis_part \<Rightarrow>
      (case (if control_neck then
               (case selectRelevantJointsConfiguration q (getRelevantJointIndicesNeck d) of
                  Inl e \<Rightarrow> Inl e
                | Inr q_neck \<Rightarrow>
                    Inr (Some (makeIHMCNeckTrajectoryMessage (system_clock_now ext Neck)
                                 q_neck msg_params)))
             else Inr None) of
         Inl e \<Rightarrow> Inl e
       | Inr neck \<Rightarrow>
           Inr \<lparr> wholebody_sequence_id = params_sequence_id msg_params,
                 left_arm_trajectory_message = larm,
                 right_arm_trajectory_message = rarm,
                 chest_trajectory_message = chest,
                 pelvis_trajectory_message = pelvis_part,
                 neck_trajectory_message = neck \<rparr>))))))"

section \<open>The interface node: publishing\<close>

text \<open>
  \<open>prepareConfigurationVector\<close> writes the pelvis pose and the joint positions into a
  zeroed vector of \<open>valkyrie::num_q\<close> entries; a write outside the vector is an error.
\<close>

definition setCoeff :: "real list \<Rightarrow> int \<Rightarrow> real \<Rightarrow> error + real list" where
  "setCoeff v i x =
     (if 0 \<le> i \<and> nat i < length v then Inr (v[nat i := x])
      else Inl ConfigurationIndexOutOfRange)"

fun setCoeffs :: "real list \<Rightarrow> (int \<times> real) list \<Rightarrow> error + real list" where
  "setCoeffs v [] = Inr v"
| "setCoeffs v ((i, x) # writes) =
     (case setCoeff v i x of Inl e \<Rightarrow> Inl e | Inr v' \<Rightarrow> setCoeffs v' writes)"

fun setJoints :: "Valkyrie_Definition \<Rightarrow> nat \<Rightarrow> real list \<Rightarrow> real list \<Rightarrow> error + real list" where
  "setJoints d i [] v = Inr v"
| "setJoints d i (x # xs) v =
     (case setCoeff v (int i + int (num_virtual d)) x of
        Inl e \<Rightarrow> Inl e
      | Inr v' \<Rightarrow> setJoints d (Suc i) xs v')"

definition prepareConfigurationVector ::
  "Valkyrie_Definition \<Rightarrow> External \<Rightarrow> IHMCInterfaceNode \<Rightarrow> error + IHMCInterfaceNode" where
  "prepareConfigurationVector d ext s =
     (let pelvis_origin = tf_origin (tf_pelvis_wrt_world s);
          pelvis_rotation = getRotation_convert ext (tf_rotation (tf_pelvis_wrt_world s))
      in
      (case setCoeffs (replicate (num_q d) 0)
              [(virtual_X d, vec_x pelvis_origin),
               (virtual_Y d, vec_y pelvis_origin),
               (virtual_Z d, vec_z pelvis_origin),
               (virtual_Rx d, quat_x pelvis_rotation),
               (virtual_Ry d, quat_y pelvis_rotation),
               (virtual_Rz d, quat_z pelvis_rotation),
               (virtual_Rw d, quat_w pelvis_rotation)] of
         Inl e \<Rightarrow> Inl e
       | Inr v \<Rightarrow>
           (case setJoints d 0 (m_q_joint s) v of
              Inl e \<Rightarrow> Inl e
            | Inr v' \<Rightarrow> Inr (s\<lparr>m_q := v'\<rparr>))))"

text \<open>
  \<open>publishWholeBodyMessage\<close> returns the node and the message handed to the publisher.
\<close>

definition publishWholeBodyMessage ::
  "Valkyrie_Definition \<Rightarrow> External \<Rightarrow> IHMCInterfaceNode
     \<Rightarrow> error + IHMCInterfaceNode \<times> WholeBodyTrajectoryMessage" where
  "publishWholeBodyMessage d ext s =
     (case prepareConfigurationVector d ext s of
        Inl e \<Rightarrow> Inl e
      | Inr s1 \<Rightarrow>
          (let msg_params0 =
                 (default_IHMCMessageParameters ext)
                   \<lparr>params_controlled_links := controlled_links s1\<rparr>;
               msg_params =
                 (if commands_from_controllers s1 then
                    msg_params0\<lparr>queueable_params_execution_mode := 2,
                                queueable_params_stream_integration_duration := 0.13,
                                traj_point_params_time := 0\<rparr>
                  else msg_params0)
           in
           (case makeIHMCWholeBodyTrajectoryMessage d ext (m_q s1) msg_params of
              Inl e \<Rightarrow> Inl e
            | Inr wholebody_msg \<Rightarrow> Inr (s1, wholebody_msg))))"

text \<open>
  \<open>publishGoHomeMessage\<close> returns the node and the messages handed to the publisher, in
  the order in which they are published.
\<close>

definition publishGoHomeMessage ::
  "External \<Rightarrow> IHMCInterfaceNode \<Rightarrow> IHMCInterfaceNode \<times> GoHomeMessage list" where
  "publishGoHomeMessage ext s =
     (let msg_params = default_IHMCMessageParameters ext;
          (s1, out1) =
            (if home_left_arm s
             then (s\<lparr>home_left_arm := False\<rparr>, [makeIHMCHomeLeftArmMessage msg_params])
             else (s, []));
          (s2, out2) =
            (if home_right_arm s1
             then (s1\<lparr>home_right_arm := False\<rparr>, out1 @ [makeIHMCHomeRightArmMessage msg_params])
             else (s1, out1));
          (s3, out3) =
            (if home_chest s2
             then (s2\<lparr>home_chest := False\<rparr>, out2 @ [makeIHMCHomeChestMessage msg_params])
             else (s2, out2));
          (s4, out4) =
            (if home_pelvis s3
             then (s3\<lparr>home_pelvis := False\<rparr>, out3 @ [makeIHMCHomePelvisMessage msg_params])
             else (s3, out3))
      in (updatePublishGoHomeCommandFlag s4, out4))"

subsection \<open>The driver\<close>

text \<open>
  One pass through the body of the loop in \<open>main\<close>, up to the call of \<open>ros::spinOnce\<close>:
  the node afterwards, what was published, and whether the loop is left by \<open>break\<close>.
\<close>

datatype published =
    WholeBodyTrajectory WholeBodyTrajectoryMessage
  | GoHome GoHomeMessage

definition main_loop_body ::
  "Valkyrie_Definition \<Rightarrow> External \<Rightarrow> IHMCInterfaceNode
     \<Rightarrow> error + IHMCInterfaceNode \<times> published list \<times> bool" where
  "main_loop_body d ext s =
     (if getCommandsFromControllersFlag s then
        (case (if getPublishCommandsFlag s then
                 (case publishWholeBodyMessage d ext s of
                    Inl e \<Rightarrow> Inl e
                  | Inr (s1, wholebody_msg) \<Rightarrow> Inr (s1, [WholeBodyTrajectory wholebody_msg]))
               else Inr (s, [])) of
           Inl e \<Rightarrow> Inl e
         | Inr (s1, out1) \<Rightarrow>
             (if getPublishGoHomeCommandFlag s1 then
                (let (s2, go_home_msgs) = publishGoHomeMessage ext s1
                 in Inr (s2, out1 @ map GoHome go_home_msgs, False))
              else Inr (s1, out1, False)))
      else
        (if getPublishCommandsFlag s \<and> getStopNodeFlag s then
           (case publishWholeBodyMessage d ext s of
              Inl e \<Rightarrow> Inl e
            | Inr (s1, wholebody_msg) \<Rightarrow> Inr (s1, [WholeBodyTrajectory wholebody_msg], True))
         else Inr (s, [], False)))"

section \<open>Notions used to state the properties\<close>

text \<open>
  The joint update as the specification words it: start from a zeroed vector of
  \<open>num_act_joint\<close> entries and, for each (name, value) pair in order, write the value at
  the slot of the name, offset by the number of virtual joints, when the name is in the
  index; a pair whose name is not in the index writes nothing.
\<close>

definition writeNamedJoint :: "Valkyrie_Definition \<Rightarrow> string \<times> real \<Rightarrow> real list \<Rightarrow> real list" where
  "writeNamedJoint d pair qj =
     (case joint_names_to_indices d (fst pair) of
        None \<Rightarrow> qj
      | Some k \<Rightarrow> qj[nat (k - int (num_virtual d)) := snd pair])"

definition fullReplaceJoints :: "Valkyrie_Definition \<Rightarrow> (string \<times> real) list \<Rightarrow> real list" where
  "fullReplaceJoints d pairs = fold (writeNamedJoint d) pairs (replicate (num_act_joint d) 0)"

definition nameFound :: "Valkyrie_Definition \<Rightarrow> string \<times> real \<Rightarrow> bool" where
  "nameFound d pair = (joint_names_to_indices d (fst pair) \<noteq> None)"

text \<open>
  A name is harmless for the joint vector when it is not in the index or its slot, less
  the number of virtual joints, lies inside the vector of \<open>num_act_joint\<close> entries.
\<close>

definition slotInJointVector :: "Valkyrie_Definition \<Rightarrow> string \<Rightarrow> bool" where
  "slotInJointVector d n =
     (case joint_names_to_indices d n of
        None \<Rightarrow> True
      | Some k \<Rightarrow> int (num_virtual d) \<le> k \<and> k < int (num_virtual d) + int (num_act_joint d))"

text \<open>
  The inbound messages whose handler calls \<open>updateStopNodeFlag\<close>: all but a controller
  status other than \<open>STOP-LISTENING\<close> and \<open>START-LISTENING\<close>.
\<close>

fun recomputesStopFlag :: "inbound \<Rightarrow> bool" where
  "recomputesStopFlag (ControllerStatus status_data) =
     (status_data = ''STOP-LISTENING'' \<or> status_data = ''START-LISTENING'')"
| "recomputesStopFlag m = True"


definition jointspaceTimes :: "JointspaceTrajectoryMessage \<Rightarrow> real list" where
  "jointspaceTimes js_msg =
     concat (map (\<lambda>j_msg. map tp1d_time (onedof_trajectory_points j_msg))
       (joint_trajectory_messages js_msg))"

text \<open>
  The queueing properties of the body parts a whole-body message has assembled, and the
  times of all their trajectory points.
\<close>

definition queueingProperties :: "WholeBodyTrajectoryMessage \<Rightarrow> QueueableMessage list" where
  "queueingProperties wb =
     (case left_arm_trajectory_message wb of
        None \<Rightarrow> []
      | Some m \<Rightarrow> [jointspace_queueing_properties (arm_jointspace_trajectory m)]) @
     (case right_arm_trajectory_message wb of
        None \<Rightarrow> []
      | Some m \<Rightarrow> [jointspace_queueing_properties (arm_jointspace_trajectory m)]) @
     (case chest_trajectory_message wb of
        None \<Rightarrow> []
      | Some m \<Rightarrow> [so3_queueing_properties (chest_so3_trajectory m)]) @
     (case pelvis_trajectory_message wb of
        None \<Rightarrow> []
      | Some m \<Rightarrow> [se3_queueing_properties (pelvis_se3_trajectory m)]) @
     (case neck_trajectory_message wb of
        None \<Rightarrow> []
      | Some m \<Rightarrow> [jointspace_queueing_properties (neck_jointspace_trajectory m)])"

definition trajectoryPointTimes :: "WholeBodyTrajectoryMessage \<Rightarrow> real list" where
  "trajectoryPointTimes wb =
     (case left_arm_trajectory_message wb of
        None \<Rightarrow> []
      | Some m \<Rightarrow> jointspaceTimes (arm_jointspace_trajectory m)) @
     (case right_arm_trajectory_message wb of
        None \<Rightarrow> []
      | Some m \<Rightarrow> jointspaceTimes (arm_jointspace_trajectory m)) @
     (case chest_trajectory_message wb of
        None \<Rightarrow> []
      | Some m \<Rightarrow> map so3_point_time (so3_taskspace_trajectory_points (chest_so3_trajectory m))) @
     (case pelvis_trajectory_message wb of
        None \<Rightarrow> []
      | Some m \<Rightarrow> map se3_point_time (se3_taskspace_trajectory_points (pelvis_se3_trajectory m))) @
     (case neck_trajectory_message wb of
        None \<Rightarrow> []
      | Some m \<Rightarrow> jointspaceTimes (neck_jointspace_trajectory m))"

subsection \<open>A concrete robot for evaluating the functions\<close>

text \<open>
  A robot definition in the layout the specification describes: the root pose in slots
  0 to 6 of the configuration vector, then thirteen joints (left arm, neck, right arm).
\<close>

definition example_robot :: Valkyrie_Definition where
  "example_robot =
     \<lparr> num_q = 20, num_act_joint = 13, num_virtual = 7,
       joint_names_to_indices =
         map_of [(''leftShoulderPitch'', 7), (''leftShoulderRoll'', 8),
                 (''leftShoulderYaw'', 9), (''leftElbowPitch'', 10),
                 (''leftForearmYaw'', 11), (''lowerNeckPitch'', 12), (''neckYaw'', 13),
                 (''upperNeckPitch'', 14), (''rightShoulderPitch'', 15),
                 (''rightShoulderRoll'', 16), (''rightShoulderYaw'', 17),
                 (''rightElbowPitch'', 18), (''rightForearmYaw'', 19)],
       virtual_X = 0, virtual_Y = 1, virtual_Z = 2,
       virtual_Rx = 3, virtual_Ry = 4, virtual_Rz = 5, virtual_Rw = 6,
       leftShoulderPitch = 7, leftShoulderRoll = 8, leftShoulderYaw = 9,
       leftElbowPitch = 10, leftForearmYaw = 11,
       rightShoulderPitch = 15, rightShoulderRoll = 16, rightShoulderYaw = 17,
       rightElbowPitch = 18, rightForearmYaw = 19,
       lowerNeckPitch = 12, neckYaw = 13, upperNeckPitch = 14,
       pelvis = 0, torso = 1, rightCOP_Frame = 2, leftCOP_Frame = 3,
       rightPalm = 4, leftPalm = 5, head = 6 \<rparr>"

definition example_params :: IHMCMessageParameters where
  "example_params =
     \<lparr> params_sequence_id = 1,
       params_controlled_links = [],
       arm_params_force_execution = False,
       frame_params_trajectory_reference_frame_id_pelviszup = 10,
       frame_params_trajectory_reference_frame_id_world = 11,
       frame_params_data_reference_frame_id_world = 11,
       queueable_params_execution_mode = 0,
       queueable_params_message_id = 1,
       queueable_params_previous_message_id = 0,
       queueable_params_stream_integration_duration = 0,
       onedof_joint_params_weight = - 1,
       pelvis_params_force_execution = False,
       pelvis_params_enable_user_pelvis_control = False,
       pelvis_params_enable_user_pelvis_control_during_walking = False,
       se3so3_params_use_custom_control_frame = False,
       selection_matrix_params_selection_frame_id = 0,
       selection_matrix_params_x_selected = True,
       selection_matrix_params_y_selected = True,
       selection_matrix_params_z_selected = True,
       weight_matrix_params_weight_frame_id = 0,
       weight_matrix_params_x_weight = - 1,
       weight_matrix_params_y_weight = - 1,
       weight_matrix_params_z_weight = - 1,
       traj_point_params_time = 1,
       go_home_params_trajectory_time = 3 \<rparr>"

definition example_external :: External where
  "example_external =
     \<lparr> default_IHMCMessageParameters = example_params,
       makeZeroPoseMessage =
         \<lparr> pose_position = Vector3 0 0 0, pose_orientation = Quaternion 0 0 0 0 \<rparr>,
       Valkyrie_Model_getOri_torso = (\<lambda>q. Quaternion 0 0 0 1),
       getRotation_convert = (\<lambda>quat. quat),
       system_clock_now = (\<lambda>part. 0) \<rparr>"

definition example_transform :: Transform where
  "example_transform = \<lparr> tf_origin = Vector3 0 0 0, tf_rotation = Quaternion 0 0 0 1 \<rparr>"

definition example_pose :: TransformStamped where
  "example_pose = \<lparr> translation = Vector3 1 2 3, rotation = Quaternion 0 0 0 1 \<rparr>"

definition example_joints :: JointState where
  "example_joints =
     \<lparr> js_name = [''leftElbowPitch'', ''hokuyo_joint'', ''neckYaw''],
       js_position = [0.5, 9, 0.25] \<rparr>"

text \<open>A joint message with more positions than names.\<close>

definition example_short_names :: JointState where
  "example_short_names = \<lparr> js_name = [''neckYaw''], js_position = [0.25, 0.5] \<rparr>"

text \<open>
  A node in the middle of an aggregation: started by the controllers, the pelvis pose
  received, the joints and the links not yet.
\<close>

definition example_mid_aggregation :: IHMCInterfaceNode where
  "example_mid_aggregation =
     transformCallback example_pose
       (statusCallback ''START-LISTENING''
          (constructNode example_robot True example_transform))"

text \<open>
  Nodes that have received what they wait for: in one-shot mode a pose and a joint
  message, in streaming mode a start signal, a pose, the links of the pelvis and the left
  palm, and a joint message. Then a node with a pending request to home the left arm, and
  the streaming node with a pending request to home the chest.
\<close>

definition example_ready_oneshot :: IHMCInterfaceNode where
  "example_ready_oneshot =
     projr (handleAll example_robot [PelvisTransform example_pose, JointCommand example_joints]
              (constructNode example_robot False example_transform))"

definition example_ready_streaming :: IHMCInterfaceNode where
  "example_ready_streaming =
     projr (handleAll example_robot
              [ControllerStatus ''START-LISTENING'', PelvisTransform example_pose,
               ControlledLinkIds [0, 5], JointCommand example_joints]
              (constructNode example_robot True example_transform))"

text \<open>A node in one-shot mode that has received a pose and no joints.\<close>

definition example_pose_only :: IHMCInterfaceNode where
  "example_pose_only =
     transformCallback example_pose (constructNode example_robot False example_transform)"

definition example_home_left_arm :: IHMCInterfaceNode where
  "example_home_left_arm =
     statusCallback ''HOME-LEFTARM'' (constructNode example_robot True example_transform)"

definition example_streaming_home_chest :: IHMCInterfaceNode where
  "example_streaming_home_chest = statusCallback ''HOME-CHEST'' example_ready_streaming"

section \<open>Readiness flags\<close>

lemmas flag_defs = updatePublishCommandsFlag_def updateStopNodeFlag_def
  updatePublishGoHomeCommandFlag_def getPublishCommandsFlag_def getStopNodeFlag_def
  getPublishGoHomeCommandFlag_def

lemmas callback_defs = transformCallback_def controlledLinkIdsCallback_def
  jointCommandCallback_def statusCallback_def

lemma transformCallback_publish:
  "publish_commands (transformCallback tf_msg s) =
     (received_pelvis_transform (transformCallback tf_msg s) \<and>
      received_link_ids (transformCallback tf_msg s) \<and>
      received_joint_command (transformCallback tf_msg s))"
  by (simp add: transformCallback_def flag_defs Let_def)

lemma controlledLinkIdsCallback_publish:
  "publish_commands (controlledLinkIdsCallback a s) =
     (received_pelvis_transform (controlledLinkIdsCallback a s) \<and>
      received_link_ids (controlledLinkIdsCallback a s) \<and>
      received_joint_command (controlledLinkIdsCallback a s))"
  by (simp add: controlledLinkIdsCallback_def flag_defs Let_def)

lemma jointCommandCallback_publish:
  "jointCommandCallback d js s = Inr s' \<Longrightarrow>
   publish_commands s' =
     (received_pelvis_transform s' \<and> received_link_ids s' \<and> received_joint_command s')"
  by (auto simp add: jointCommandCallback_def flag_defs Let_def split: if_splits sum.splits)

text \<open>
  The status handler recomputes the flag on \<open>STOP-LISTENING\<close> and \<open>START-LISTENING\<close>
  only; on every other status it leaves the flag and the three received flags alone, so
  it keeps the equation when it held before.
\<close>

lemma statusCallback_publish:
  "publish_commands s =
     (received_pelvis_transform s \<and> received_link_ids s \<and> received_joint_command s) \<Longrightarrow>
   publish_commands (statusCallback st s) =
     (received_pelvis_transform (statusCallback st s) \<and>
      received_link_ids (statusCallback st s) \<and>
      received_joint_command (statusCallback st s))"
  by (simp add: statusCallback_def flag_defs)

lemma handle_publish:
  assumes "publish_commands s =
     (received_pelvis_transform s \<and> received_link_ids s \<and> received_joint_command s)"
    and "handle d m s = Inr s'"
  shows "publish_commands s' =
     (received_pelvis_transform s' \<and> received_link_ids s' \<and> received_joint_command s')"
proof (cases m)
  case (PelvisTransform t)
  with assms(2) show ?thesis using transformCallback_publish by auto
next
  case (ControlledLinkIds a)
  with assms(2) show ?thesis using controlledLinkIdsCallback_publish by auto
next
  case (JointCommand js)
  with assms(2) show ?thesis using jointCommandCallback_publish by auto
next
  case (ControllerStatus st)
  with assms show ?thesis using statusCallback_publish by auto
qed

lemma handleAll_publish:
  assumes "handleAll d ms s = Inr s'"
    and "publish_commands s =
     (received_pelvis_transform s \<and> received_link_ids s \<and> received_joint_command s)"
  shows "publish_commands s' =
     (received_pelvis_transform s' \<and> received_link_ids s' \<and> received_joint_command s')"
  using assms
proof (induction ms arbitrary: s)
  case Nil
  then show ?case by simp
next
  case (Cons m ms)
  from Cons.prems(1) obtain s1 where h: "handle d m s = Inr s1" and r: "handleAll d ms s1 = Inr s'"
    by (auto split: sum.splits)
  from handle_publish[OF Cons.prems(2) h] Cons.IH[OF r] show ?case by blast
qed

lemma constructNode_publish:
  "publish_commands (constructNode d fc tf0) =
     (received_pelvis_transform (constructNode d fc tf0) \<and>
      received_link_ids (constructNode d fc tf0) \<and>
      received_joint_command (constructNode d fc tf0))"
  by (simp add: constructNode_def)

text \<open>
  Claim C1. Whatever inbound messages the constructed node has handled (pose, link-set and
  joint updates, in any order and number, and controller statuses as well), once the last
  handler has returned \<open>getPublishCommandsFlag\<close> is true exactly when the pose, the
  links and the joints have all three been received; so it is false as long as one of the
  three is missing.
\<close>

theorem canPublish_iff_all_received:
  assumes "handleAll d ms (constructNode d from_controllers tf0) = Inr s"
  shows "getPublishCommandsFlag s =
           (received_pelvis_transform s \<and> received_link_ids s \<and> received_joint_command s)"
  unfolding getPublishCommandsFlag_def
  using handleAll_publish[OF assms constructNode_publish] .

theorem canPublish_iff_all_received_witness:
  "\<exists>s. handleAll example_robot [PelvisTransform example_pose, JointCommand example_joints]
         (constructNode example_robot False example_transform) = Inr s \<and>
       received_pelvis_transform s \<and> received_link_ids s \<and> received_joint_command s \<and>
       getPublishCommandsFlag s"
proof -
  have "\<exists>s. handleAll example_robot [PelvisTransform example_pose, JointCommand example_joints]
         (constructNode example_robot False example_transform) = Inr s \<and>
       received_pelvis_transform s \<and> received_link_ids s \<and> received_joint_command s"
    by (simp add: constructNode_def transformCallback_def jointCommandCallback_def
        example_robot_def example_joints_def flag_defs Let_def)
  then obtain s where
    h: "handleAll example_robot [PelvisTransform example_pose, JointCommand example_joints]
         (constructNode example_robot False example_transform) = Inr s"
    and r: "received_pelvis_transform s \<and> received_link_ids s \<and> received_joint_command s"
    by blast
  from canPublish_iff_all_received[OF h] r h show ?thesis by blast
qed

text \<open>
  Claim C2, as stated, fails: the status handler recomputes \<open>stop_node_\<close> on
  \<open>STOP-LISTENING\<close> and \<open>START-LISTENING\<close> only. A node constructed to take its commands
  from the controllers accepts neither poses nor joints and has \<open>stop_node_\<close> false;
  after the status handler has returned from \<open>HOME-LEFTARM\<close> that is still so.
\<close>

theorem shouldStop_counterexample:
  "receive_pelvis_transform
     (statusCallback ''HOME-LEFTARM'' (constructNode example_robot True example_transform)) = False \<and>
   receive_joint_command
     (statusCallback ''HOME-LEFTARM'' (constructNode example_robot True example_transform)) = False \<and>
   getStopNodeFlag
     (statusCallback ''HOME-LEFTARM'' (constructNode example_robot True example_transform)) = False"
  by (simp add: statusCallback_def constructNode_def flag_defs)

lemma handle_link_flag:
  "handle d m (s\<lparr>receive_link_ids := b\<rparr>) = Inr t \<Longrightarrow> handle d m s = Inr s' \<Longrightarrow>
   stop_node t = stop_node s'"
  by (cases m)
     (auto simp add: callback_defs flag_defs Let_def split: if_splits sum.splits)

lemma handle_link_flag_defined:
  "handle d m s = Inr s' \<Longrightarrow> \<exists>t. handle d m (s\<lparr>receive_link_ids := b\<rparr>) = Inr t"
  by (cases m)
     (auto simp add: jointCommandCallback_def Let_def split: if_splits sum.splits)

text \<open>
  Claim C2, amended. After the pose, the link-set or the joint handler has returned, and
  after the status handler has returned from \<open>STOP-LISTENING\<close> or \<open>START-LISTENING\<close>,
  \<open>getStopNodeFlag\<close> is true exactly when the node accepts neither poses nor joints.
  After the status handler has returned from any other status, \<open>stop_node_\<close> and the two
  accepting flags are what they were before the call. In both cases the value of
  \<open>getStopNodeFlag\<close> is the same whatever the links-accepting flag was before the call.
\<close>

theorem shouldStop_after_handler:
  assumes "handle d m s = Inr s'"
  shows "(recomputesStopFlag m \<longrightarrow>
            getStopNodeFlag s' = (\<not> receive_pelvis_transform s' \<and> \<not> receive_joint_command s')) \<and>
         (\<not> recomputesStopFlag m \<longrightarrow>
            getStopNodeFlag s' = getStopNodeFlag s \<and>
            receive_pelvis_transform s' = receive_pelvis_transform s \<and>
            receive_joint_command s' = receive_joint_command s) \<and>
         (\<exists>t. handle d m (s\<lparr>receive_link_ids := b\<rparr>) = Inr t \<and>
              getStopNodeFlag t = getStopNodeFlag s')"
proof (intro conjI impI)
  assume "recomputesStopFlag m"
  with assms
  show "getStopNodeFlag s' = (\<not> receive_pelvis_transform s' \<and> \<not> receive_joint_command s')"
    by (cases m)
       (auto simp add: callback_defs flag_defs Let_def split: if_splits sum.splits)
next
  assume "\<not> recomputesStopFlag m"
  then obtain st where m: "m = ControllerStatus st"
    and st: "st \<noteq> ''STOP-LISTENING''" "st \<noteq> ''START-LISTENING''"
    by (cases m) auto
  from assms m st show "getStopNodeFlag s' = getStopNodeFlag s"
    by (auto simp add: statusCallback_def flag_defs split: if_splits)
  from assms m st show "receive_pelvis_transform s' = receive_pelvis_transform s"
    by (auto simp add: statusCallback_def flag_defs split: if_splits)
  from assms m st show "receive_joint_command s' = receive_joint_command s"
    by (auto simp add: statusCallback_def flag_defs split: if_splits)
next
  from handle_link_flag_defined[OF assms] obtain t where
    t: "handle d m (s\<lparr>receive_link_ids := b\<rparr>) = Inr t" by blast
  from handle_link_flag[OF t assms] t
  show "\<exists>t. handle d m (s\<lparr>receive_link_ids := b\<rparr>) = Inr t \<and>
            getStopNodeFlag t = getStopNodeFlag s'"
    by (auto simp add: getStopNodeFlag_def)
qed

theorem shouldStop_after_handler_witness:
  "recomputesStopFlag (ControllerStatus ''STOP-LISTENING'') \<and>
   getStopNodeFlag (statusCallback ''STOP-LISTENING'' example_mid_aggregation) \<and>
   \<not> receive_pelvis_transform (statusCallback ''STOP-LISTENING'' example_mid_aggregation) \<and>
   \<not> receive_joint_command (statusCallback ''STOP-LISTENING'' example_mid_aggregation) \<and>
   \<not> recomputesStopFlag (ControllerStatus ''HOME-CHEST'') \<and>
   getStopNodeFlag (statusCallback ''HOME-CHEST'' example_mid_aggregation) =
     getStopNodeFlag example_mid_aggregation \<and>
   (\<exists>t. handle example_robot (ControllerStatus ''STOP-LISTENING'')
          (example_mid_aggregation\<lparr>receive_link_ids := False\<rparr>) = Inr t \<and>
        getStopNodeFlag t)"
proof -
  have h1: "handle example_robot (ControllerStatus ''STOP-LISTENING'') example_mid_aggregation =
          Inr (statusCallback ''STOP-LISTENING'' example_mid_aggregation)"
    by simp
  have h2: "handle example_robot (ControllerStatus ''HOME-CHEST'') example_mid_aggregation =
          Inr (statusCallback ''HOME-CHEST'' example_mid_aggregation)"
    by simp
  have r1: "recomputesStopFlag (ControllerStatus ''STOP-LISTENING'')"
    and r2: "\<not> recomputesStopFlag (ControllerStatus ''HOME-CHEST'')"
    by simp_all
  have f: "\<not> receive_pelvis_transform (statusCallback ''STOP-LISTENING'' example_mid_aggregation) \<and>
           \<not> receive_joint_command (statusCallback ''STOP-LISTENING'' example_mid_aggregation)"
    by (simp add: statusCallback_def flag_defs)
  from shouldStop_after_handler[OF h1, of False] shouldStop_after_handler[OF h2, of False] r1 r2 f
  show ?thesis by blast
qed

text \<open>
  Claim C8. From any state of the node, handling the status \<open>STOP-LISTENING\<close> leaves the
  three accepting flags and the three received flags false, \<open>getPublishCommandsFlag\<close>
  false and \<open>getStopNodeFlag\<close> true.
\<close>

theorem stop_listening_resets:
  "\<not> receive_pelvis_transform (statusCallback ''STOP-LISTENING'' s) \<and>
   \<not> receive_joint_command (statusCallback ''STOP-LISTENING'' s) \<and>
   \<not> receive_link_ids (statusCallback ''STOP-LISTENING'' s) \<and>
   \<not> received_pelvis_transform (statusCallback ''STOP-LISTENING'' s) \<and>
   \<not> received_joint_command (statusCallback ''STOP-LISTENING'' s) \<and>
   \<not> received_link_ids (statusCallback ''STOP-LISTENING'' s) \<and>
   \<not> getPublishCommandsFlag (statusCallback ''STOP-LISTENING'' s) \<and>
   getStopNodeFlag (statusCallback ''STOP-LISTENING'' s)"
  by (simp add: statusCallback_def flag_defs)

theorem stop_listening_resets_witness:
  "received_pelvis_transform example_mid_aggregation \<and>
   \<not> received_joint_command example_mid_aggregation \<and>
   receive_joint_command example_mid_aggregation \<and>
   \<not> received_pelvis_transform (statusCallback ''STOP-LISTENING'' example_mid_aggregation) \<and>
   \<not> received_joint_command (statusCallback ''STOP-LISTENING'' example_mid_aggregation) \<and>
   \<not> received_link_ids (statusCallback ''STOP-LISTENING'' example_mid_aggregation) \<and>
   \<not> getPublishCommandsFlag (statusCallback ''STOP-LISTENING'' example_mid_aggregation) \<and>
   getStopNodeFlag (statusCallback ''STOP-LISTENING'' example_mid_aggregation)"
proof -
  have "received_pelvis_transform example_mid_aggregation \<and>
        \<not> received_joint_command example_mid_aggregation \<and>
        receive_joint_command example_mid_aggregation"
    by (simp add: example_mid_aggregation_def constructNode_def transformCallback_def
        statusCallback_def flag_defs Let_def)
  with stop_listening_resets[of example_mid_aggregation] show ?thesis by blast
qed

section \<open>The joint update\<close>

lemma setJointPositions_Inr:
  "setJointPositions d names ps qj = Inr r \<Longrightarrow>
   length ps \<le> length names \<and> r = fold (writeNamedJoint d) (zip names ps) qj \<and>
   length r = length qj"
proof (induction d names ps qj arbitrary: r rule: setJointPositions.induct)
  case (1 d names qj)
  then show ?case by simp
next
  case (2 d p ps qj)
  then show ?case by simp
next
  case (3 d n names p ps qj)
  show ?case
  proof (cases "joint_names_to_indices d n")
    case None
    with "3.prems" have "setJointPositions d names ps qj = Inr r" by simp
    from "3.IH"(1)[OF None this] None show ?thesis by (auto simp add: writeNamedJoint_def)
  next
    case (Some k)
    let ?jidx = "k - int (num_virtual d)"
    from "3.prems" Some have ok: "0 \<le> ?jidx \<and> nat ?jidx < length qj"
      by (auto simp add: Let_def split: if_splits)
    with "3.prems" Some have "setJointPositions d names ps (qj[nat ?jidx := p]) = Inr r"
      by (simp add: Let_def)
    from "3.IH"(2)[OF Some refl ok this] Some show ?thesis by (auto simp add: writeNamedJoint_def)
  qed
qed

lemma setJointPositions_defined:
  "length qj = num_act_joint d \<Longrightarrow>
   (\<exists>r. setJointPositions d names ps qj = Inr r) =
     (length ps \<le> length names \<and> list_all (slotInJointVector d) (take (length ps) names))"
proof (induction d names ps qj rule: setJointPositions.induct)
  case (1 d names qj)
  then show ?case by simp
next
  case (2 d p ps qj)
  then show ?case by simp
next
  case (3 d n names p ps qj)
  show ?case
  proof (cases "joint_names_to_indices d n")
    case None
    with "3.IH"(1)[OF None "3.prems"] show ?thesis by (simp add: slotInJointVector_def)
  next
    case (Some k)
    let ?jidx = "k - int (num_virtual d)"
    show ?thesis
    proof (cases "0 \<le> ?jidx \<and> nat ?jidx < length qj")
      case True
      with "3.prems" have len: "length (qj[nat ?jidx := p]) = num_act_joint d" by simp
      from True "3.prems" have sl: "slotInJointVector d n"
        using Some by (auto simp add: slotInJointVector_def)
      from "3.IH"(2)[OF Some refl True len] True Some sl show ?thesis by (simp add: Let_def)
    next
      case False
      with "3.prems" Some have "\<not> slotInJointVector d n"
        by (auto simp add: slotInJointVector_def)
      moreover from False Some
      have "setJointPositions d (n # names) (p # ps) qj = Inl JointIndexOutOfRange"
        by (auto simp add: Let_def)
      ultimately show ?thesis by simp
    qed
  qed
qed

lemma setJointPositions_name_error:
  "length qj = num_act_joint d \<Longrightarrow>
   (setJointPositions d names ps qj = Inl NameIndexOutOfRange) =
     (length names < length ps \<and> list_all (slotInJointVector d) names)"
proof (induction d names ps qj rule: setJointPositions.induct)
  case (1 d names qj)
  then show ?case by simp
next
  case (2 d p ps qj)
  then show ?case by simp
next
  case (3 d n names p ps qj)
  show ?case
  proof (cases "joint_names_to_indices d n")
    case None
    with "3.IH"(1)[OF None "3.prems"] show ?thesis by (simp add: slotInJointVector_def)
  next
    case (Some k)
    let ?jidx = "k - int (num_virtual d)"
    show ?thesis
    proof (cases "0 \<le> ?jidx \<and> nat ?jidx < length qj")
      case True
      with "3.prems" have len: "length (qj[nat ?jidx := p]) = num_act_joint d" by simp
      from True "3.prems" have sl: "slotInJointVector d n"
        using Some by (auto simp add: slotInJointVector_def)
      from "3.IH"(2)[OF Some refl True len] True Some sl show ?thesis by (simp add: Let_def)
    next
      case False
      with "3.prems" Some have "\<not> slotInJointVector d n"
        by (auto simp add: slotInJointVector_def)
      moreover from False Some
      have "setJointPositions d (n # names) (p # ps) qj = Inl JointIndexOutOfRange"
        by (auto simp add: Let_def)
      ultimately show ?thesis by simp
    qed
  qed
qed

lemma fold_filter_nameFound:
  "fold (writeNamedJoint d) (filter (nameFound d) pairs) z = fold (writeNamedJoint d) pairs z"
  by (induction pairs arbitrary: z) (auto simp add: nameFound_def writeNamedJoint_def)

lemma fold_writeNamedJoint_untouched:
  "\<forall>pair\<in>set pairs. \<forall>k. joint_names_to_indices d (fst pair) = Some k \<longrightarrow>
       nat (k - int (num_virtual d)) \<noteq> i \<Longrightarrow>
   fold (writeNamedJoint d) pairs z ! i = z ! i"
  by (induction pairs arbitrary: z) (auto simp add: writeNamedJoint_def split: option.splits)

text \<open>
  Claim C4. When the node accepts joints and the joint handler returns, the stored joint
  vector is the one the specification describes: a zeroed vector of \<open>num_act_joint\<close>
  entries in which, pair by pair, the value was written at the slot of its name less the
  number of virtual joints when the name is in the index. The pairs whose name is not in
  the index can be left out without changing the result, and a slot that no pair names is
  zero, whatever the vector held before the call.
\<close>

theorem joint_update_is_full_replace:
  assumes "receive_joint_command s" and "jointCommandCallback d js_msg s = Inr s'"
  shows "m_q_joint s' = fullReplaceJoints d (zip (js_name js_msg) (js_position js_msg)) \<and>
         m_q_joint s' =
           fullReplaceJoints d (filter (nameFound d) (zip (js_name js_msg) (js_position js_msg))) \<and>
         length (m_q_joint s') = num_act_joint d \<and>
         (\<forall>i < num_act_joint d.
            (\<forall>pair \<in> set (zip (js_name js_msg) (js_position js_msg)).
               \<forall>k. joint_names_to_indices d (fst pair) = Some k \<longrightarrow>
                  nat (k - int (num_virtual d)) \<noteq> i) \<longrightarrow>
            m_q_joint s' ! i = 0)"
proof -
  from assms obtain qj where
    qj: "setJointPositions d (js_name js_msg) (js_position js_msg)
           (replicate (num_act_joint d) 0) = Inr qj"
    and s': "m_q_joint s' = qj"
    by (auto simp add: jointCommandCallback_def updatePublishCommandsFlag_def
        updateStopNodeFlag_def Let_def split: sum.splits if_splits)
  from setJointPositions_Inr[OF qj] s'
  have eq: "m_q_joint s' = fullReplaceJoints d (zip (js_name js_msg) (js_position js_msg))"
    and len: "length (m_q_joint s') = num_act_joint d"
    by (auto simp add: fullReplaceJoints_def)
  have flt: "m_q_joint s' =
      fullReplaceJoints d (filter (nameFound d) (zip (js_name js_msg) (js_position js_msg)))"
    using eq by (simp add: fullReplaceJoints_def fold_filter_nameFound)
  have zero: "\<forall>i < num_act_joint d.
            (\<forall>pair \<in> set (zip (js_name js_msg) (js_position js_msg)).
               \<forall>k. joint_names_to_indices d (fst pair) = Some k \<longrightarrow>
                  nat (k - int (num_virtual d)) \<noteq> i) \<longrightarrow>
            m_q_joint s' ! i = 0"
    using eq by (simp add: fullReplaceJoints_def fold_writeNamedJoint_untouched)
  from eq flt len zero show ?thesis by blast
qed

theorem joint_update_is_full_replace_witness:
  "receive_joint_command
     ((constructNode example_robot False example_transform)\<lparr>m_q_joint := [7, 7, 7]\<rparr>) \<and>
   (\<exists>s'. jointCommandCallback example_robot example_joints
           ((constructNode example_robot False example_transform)\<lparr>m_q_joint := [7, 7, 7]\<rparr>) = Inr s' \<and>
         m_q_joint s' = [0, 0, 0, 0.5, 0, 0, 0.25, 0, 0, 0, 0, 0, 0])"
proof -
  let ?s = "(constructNode example_robot False example_transform)\<lparr>m_q_joint := [7, 7, 7]\<rparr>"
  have r: "receive_joint_command ?s"
    by (simp add: constructNode_def)
  have "\<exists>s'. jointCommandCallback example_robot example_joints ?s = Inr s'"
    by (simp add: jointCommandCallback_def constructNode_def example_robot_def
        example_joints_def Let_def)
  then obtain s' where h: "jointCommandCallback example_robot example_joints ?s = Inr s'"
    by blast
  have v: "fullReplaceJoints example_robot
             (zip (js_name example_joints) (js_position example_joints)) =
           [0, 0, 0, 0.5, 0, 0, 0.25, 0, 0, 0, 0, 0, 0]"
    by (simp add: fullReplaceJoints_def writeNamedJoint_def example_robot_def
        example_joints_def eval_nat_numeral)
  from joint_update_is_full_replace[OF r h] v h r show ?thesis by auto
qed

text \<open>
  Claim C10. The loop of the joint handler reads \<open>js_msg.name[i]\<close> for every index \<open>i\<close>
  of \<open>js_msg.position\<close>. While the node accepts joints, the handler returns exactly when
  the name list is at least as long as the position list and every name read has its slot
  inside the joint vector; it reads a name out of range exactly when the name list is the
  shorter one and no write has failed before its end.
\<close>

theorem joint_handler_defined_iff_names_cover_positions:
  assumes "receive_joint_command s"
  shows "((\<exists>s'. jointCommandCallback d js_msg s = Inr s') =
            (length (js_position js_msg) \<le> length (js_name js_msg) \<and>
             list_all (slotInJointVector d)
               (take (length (js_position js_msg)) (js_name js_msg)))) \<and>
         ((jointCommandCallback d js_msg s = Inl NameIndexOutOfRange) =
            (length (js_name js_msg) < length (js_position js_msg) \<and>
             list_all (slotInJointVector d) (js_name js_msg)))"
proof -
  have len: "length (replicate (num_act_joint d) (0::real)) = num_act_joint d" by simp
  have a: "(\<exists>s'. jointCommandCallback d js_msg s = Inr s') =
        (\<exists>r. setJointPositions d (js_name js_msg) (js_position js_msg)
               (replicate (num_act_joint d) 0) = Inr r)"
    using assms by (auto simp add: jointCommandCallback_def Let_def split: sum.splits)
  have b: "(jointCommandCallback d js_msg s = Inl NameIndexOutOfRange) =
        (setJointPositions d (js_name js_msg) (js_position js_msg)
               (replicate (num_act_joint d) 0) = Inl NameIndexOutOfRange)"
    using assms by (auto simp add: jointCommandCallback_def Let_def split: sum.splits)
  from a b setJointPositions_defined[OF len] setJointPositions_name_error[OF len]
  show ?thesis by simp
qed

theorem joint_handler_defined_iff_names_cover_positions_witness:
  "receive_joint_command (constructNode example_robot False example_transform) \<and>
   length (js_name example_short_names) < length (js_position example_short_names) \<and>
   jointCommandCallback example_robot example_short_names
     (constructNode example_robot False example_transform) = Inl NameIndexOutOfRange \<and>
   length (js_position example_joints) \<le> length (js_name example_joints) \<and>
   (\<exists>s'. jointCommandCallback example_robot example_joints
           (constructNode example_robot False example_transform) = Inr s')"
proof -
  have r: "receive_joint_command (constructNode example_robot False example_transform)"
    by (simp add: constructNode_def)
  have a: "length (js_name example_short_names) < length (js_position example_short_names) \<and>
           list_all (slotInJointVector example_robot) (js_name example_short_names)"
    by (simp add: example_short_names_def slotInJointVector_def example_robot_def)
  have b: "length (js_position example_joints) \<le> length (js_name example_joints) \<and>
           list_all (slotInJointVector example_robot)
             (take (length (js_position example_joints)) (js_name example_joints))"
    by (simp add: example_joints_def slotInJointVector_def example_robot_def)
  from joint_handler_defined_iff_names_cover_positions[OF r, of example_robot example_short_names]
    joint_handler_defined_iff_names_cover_positions[OF r, of example_robot example_joints]
    a b r
  show ?thesis by simp
qed

section \<open>Assembling the whole-body message\<close>


text \<open>
  A whole-body message that was assembled is made of its five parts, each the result of
  its own branch of \<open>makeIHMCWholeBodyTrajectoryMessage\<close>.
\<close>

lemma wholebody_Inr_parts:
  assumes "makeIHMCWholeBodyTrajectoryMessage rob ext q p = Inr wb"
  obtains larm rarm pelvis_part neck where
    "(if leftPalm rob \<in> set (params_controlled_links p) then
        (case selectRelevantJointsConfiguration q (getRelevantJointIndicesLeftArm rob) of
           Inl e \<Rightarrow> Inl e
         | Inr q_larm \<Rightarrow>
             Inr (Some (makeIHMCArmTrajectoryMessage (system_clock_now ext LeftArm) q_larm 0 p)))
      else Inr None) = Inr larm"
    "(if rightPalm rob \<in> set (params_controlled_links p) then
        (case selectRelevantJointsConfiguration q (getRelevantJointIndicesRightArm rob) of
           Inl e \<Rightarrow> Inl e
         | Inr q_rarm \<Rightarrow>
             Inr (Some (makeIHMCArmTrajectoryMessage (system_clock_now ext RightArm) q_rarm 1 p)))
      else Inr None) = Inr rarm"
    "(if pelvis rob \<in> set (params_controlled_links p) then
        (case selectRelevantJointsConfiguration q (getRelevantJointIndicesPelvis rob) of
           Inl e \<Rightarrow> Inl e
         | Inr q_pelvis \<Rightarrow>
             (case makeIHMCPelvisTrajectoryMessage ext (system_clock_now ext Pelvis) q_pelvis p of
                Inl e \<Rightarrow> Inl e
              | Inr pelvis_msg \<Rightarrow> Inr (Some pelvis_msg)))
      else Inr None) = Inr pelvis_part"
    "(if head rob \<in> set (params_controlled_links p) then
        (case selectRelevantJointsConfiguration q (getRelevantJointIndicesNeck rob) of
           Inl e \<Rightarrow> Inl e
         | Inr q_neck \<Rightarrow>
             Inr (Some (makeIHMCNeckTrajectoryMessage (system_clock_now ext Neck) q_neck p)))
      else Inr None) = Inr neck"
    "wb = \<lparr> wholebody_sequence_id = params_sequence_id p,
            left_arm_trajectory_message = larm,
            right_arm_trajectory_message = rarm,
            chest_trajectory_message =
              (if torso rob \<in> set (params_controlled_links p) then
                 Some (makeIHMCChestTrajectoryMessage ext (system_clock_now ext Chest)
                         (getChestOrientation ext q) p)
               else None),
            pelvis_trajectory_message = pelvis_part,
            neck_trajectory_message = neck \<rparr>"
proof -
  define A where "A =
    (if leftPalm rob \<in> set (params_controlled_links p) then
        (case selectRelevantJointsConfiguration q (getRelevantJointIndicesLeftArm rob) of
           Inl e \<Rightarrow> Inl e
         | Inr q_larm \<Rightarrow>
             Inr (Some (makeIHMCArmTrajectoryMessage (system_clock_now ext LeftArm) q_larm 0 p)))
      else Inr None)"
  define B where "B =
    (if rightPalm rob \<in> set (params_controlled_links p) then
        (case selectRelevantJointsConfiguration q (getRelevantJointIndicesRightArm rob) of
           Inl e \<Rightarrow> Inl e
         | Inr q_rarm \<Rightarrow>
             Inr (Some (makeIHMCArmTrajectoryMessage (system_clock_now ext RightArm) q_rarm 1 p)))
      else Inr None)"
  define C where "C =
    (if pelvis rob \<in> set (params_controlled_links p) then
        (case selectRelevantJointsConfiguration q (getRelevantJointIndicesPelvis rob) of
           Inl e \<Rightarrow> Inl e
         | Inr q_pelvis \<Rightarrow>
             (case makeIHMCPelvisTrajectoryMessage ext (system_clock_now ext Pelvis) q_pelvis p of
                Inl e \<Rightarrow> Inl e
              | Inr pelvis_msg \<Rightarrow> Inr (Some pelvis_msg)))
      else Inr None)"
  define D where "D =
    (if head rob \<in> set (params_controlled_links p) then
        (case selectRelevantJointsConfiguration q (getRelevantJointIndicesNeck rob) of
           Inl e \<Rightarrow> Inl e
         | Inr q_neck \<Rightarrow>
             Inr (Some (makeIHMCNeckTrajectoryMessage (system_clock_now ext Neck) q_neck p)))
      else Inr None)"
  define chest where "chest =
    (if torso rob \<in> set (params_controlled_links p) then
       Some (makeIHMCChestTrajectoryMessage ext (system_clock_now ext Chest)
               (getChestOrientation ext q) p)
     else None)"
  have unfolded: "makeIHMCWholeBodyTrajectoryMessage rob ext q p =
     (case A of Inl e \<Rightarrow> Inl e | Inr larm \<Rightarrow>
       (case B of Inl e \<Rightarrow> Inl e | Inr rarm \<Rightarrow>
         (case C of Inl e \<Rightarrow> Inl e | Inr pelvis_part \<Rightarrow>
           (case D of Inl e \<Rightarrow> Inl e | Inr neck \<Rightarrow>
              Inr \<lparr> wholebody_sequence_id = params_sequence_id p,
                    left_arm_trajectory_message = larm,
                    right_arm_trajectory_message = rarm,
                    chest_trajectory_message = chest,
                    pelvis_trajectory_message = pelvis_part,
                    neck_trajectory_message = neck \<rparr>))))"
    unfolding makeIHMCWholeBodyTrajectoryMessage_def checkControlledLink_def Let_def
      A_def B_def C_def D_def chest_def ..
  from assms unfolded obtain larm where a: "A = Inr larm" by (cases A) auto
  from assms unfolded a obtain rarm where b: "B = Inr rarm" by (cases B) auto
  from assms unfolded a b obtain pelvis_part where c: "C = Inr pelvis_part" by (cases C) auto
  from assms unfolded a b c obtain neck where d: "D = Inr neck" by (cases D) auto
  from assms unfolded a b c d have
    "wb = \<lparr> wholebody_sequence_id = params_sequence_id p,
            left_arm_trajectory_message = larm,
            right_arm_trajectory_message = rarm,
            chest_trajectory_message = chest,
            pelvis_trajectory_message = pelvis_part,
            neck_trajectory_message = neck \<rparr>"
    by simp
  with a b c d that show thesis
    unfolding A_def B_def C_def D_def chest_def by blast
qed

lemma take7_nth:
  assumes "take 7 q = [x0, x1, x2, x3, x4, x5, x6]"
  shows "7 \<le> length q" and "q ! 0 = x0" and "q ! 1 = x1" and "q ! 2 = x2" and "q ! 3 = x3"
    and "q ! 4 = x4" and "q ! 5 = x5" and "q ! 6 = x6"
proof -
  from assms have "length (take 7 q) = 7" by simp
  then show "7 \<le> length q" by simp
  have n: "\<And>i. i < 7 \<Longrightarrow> q ! i = [x0, x1, x2, x3, x4, x5, x6] ! i"
    using assms nth_take[of _ 7 q] by metis
  from n[of 0] show "q ! 0 = x0" by simp
  from n[of 1] show "q ! 1 = x1" by simp
  from n[of 2] show "q ! 2 = x2" by simp
  from n[of 3] show "q ! 3 = x3" by simp
  from n[of 4] show "q ! 4 = x4" by simp
  from n[of 5] show "q ! 5 = x5" by simp
  from n[of 6] show "q ! 6 = x6" by simp
qed



lemma jointspaceTimes_make:
  "set (jointspaceTimes (makeIHMCJointspaceTrajectoryMessage now q_joints p)) \<subseteq>
     {traj_point_params_time p}"
  by (auto simp add: jointspaceTimes_def makeIHMCJointspaceTrajectoryMessage_def
      makeIHMCOneDoFJointTrajectoryMessage_def makeIHMCTrajectoryPoint1DMessage_def)

lemmas example_defs = example_robot_def example_external_def example_params_def
  example_transform_def example_pose_def example_joints_def

lemmas node_defs = constructNode_def transformCallback_def controlledLinkIdsCallback_def
  jointCommandCallback_def statusCallback_def updatePublishCommandsFlag_def
  updateStopNodeFlag_def updatePublishGoHomeCommandFlag_def

lemmas utility_defs = makeIHMCWholeBodyTrajectoryMessage_def checkControlledLink_def
  getRelevantJointIndicesLeftArm_def getRelevantJointIndicesRightArm_def
  getRelevantJointIndicesNeck_def getRelevantJointIndicesPelvis_def
  makeIHMCPelvisTrajectoryMessage_def getPelvisPose_def
  makeIHMCArmTrajectoryMessage_def makeIHMCNeckTrajectoryMessage_def
  makeIHMCJointspaceTrajectoryMessage_def makeIHMCOneDoFJointTrajectoryMessage_def
  makeIHMCChestTrajectoryMessage_def makeIHMCSO3TrajectoryMessage_def
  makeIHMCSE3TrajectoryMessage_def

lemmas publish_defs = publishWholeBodyMessage_def prepareConfigurationVector_def setCoeff_def

lemmas observer_defs = queueingProperties_def trajectoryPointTimes_def jointspaceTimes_def



text \<open>
  Claim C6. Let the root pose occupy the first seven slots of the configuration vector, in
  the order x, y, z, qx, qy, qz, qw (\<open>virtual_X\<close> is slot 0, and so on up to
  \<open>virtual_Rw\<close>, slot 6), let these slots hold any values \<open>x0, \<dots>, x6\<close>, and let the
  pelvis be among the controlled links. Then the values selected for the pelvis are these
  seven in this order, \<open>getPelvisPose\<close> reads the position \<open>(x0, x1, x2)\<close> and the
  orientation \<open>(x3, x4, x5, x6)\<close> from them, and the pelvis part of every whole-body
  message that is assembled has exactly one trajectory point, with this position and this
  orientation: the pose is copied slot by slot, and no kinematic model is consulted. For
  the root pose \<open>[1, 2, 3, 0, 0, 0, 1]\<close> the point has position \<open>(1, 2, 3)\<close> and
  orientation \<open>(0, 0, 0, 1)\<close>.
\<close>

theorem pelvis_pose_read_from_root_slots:
  assumes "virtual_X rob = 0" and "virtual_Y rob = 1" and "virtual_Z rob = 2"
    and "virtual_Rx rob = 3" and "virtual_Ry rob = 4" and "virtual_Rz rob = 5"
    and "virtual_Rw rob = 6"
    and "take 7 q = [x0, x1, x2, x3, x4, x5, x6]"
    and "pelvis rob \<in> set (params_controlled_links p)"
  shows "selectRelevantJointsConfiguration q (getRelevantJointIndicesPelvis rob) =
           Inr [x0, x1, x2, x3, x4, x5, x6] \<and>
         getPelvisPose [x0, x1, x2, x3, x4, x5, x6] =
           Inr (Vector3 x0 x1 x2, Quaternion x3 x4 x5 x6) \<and>
         (\<exists>pm pt. makeIHMCPelvisTrajectoryMessage ext now [x0, x1, x2, x3, x4, x5, x6] p =
                    Inr pm \<and>
                  se3_taskspace_trajectory_points (pelvis_se3_trajectory pm) = [pt] \<and>
                  se3_point_position pt = Vector3 x0 x1 x2 \<and>
                  se3_point_orientation pt = Quaternion x3 x4 x5 x6) \<and>
         (\<forall>wb. makeIHMCWholeBodyTrajectoryMessage rob ext q p = Inr wb \<longrightarrow>
            (\<exists>pm pt. pelvis_trajectory_message wb = Some pm \<and>
                     se3_taskspace_trajectory_points (pelvis_se3_trajectory pm) = [pt] \<and>
                     se3_point_position pt = Vector3 x0 x1 x2 \<and>
                     se3_point_orientation pt = Quaternion x3 x4 x5 x6))"
proof -
  have idx: "getRelevantJointIndicesPelvis rob = [0, 1, 2, 3, 4, 5, 6]"
    using assms(1-7) by (simp add: getRelevantJointIndicesPelvis_def)
  note n = take7_nth[OF assms(8)]
  have sel: "selectRelevantJointsConfiguration q (getRelevantJointIndicesPelvis rob) =
           Inr [x0, x1, x2, x3, x4, x5, x6]"
    using n by (auto simp add: idx)
  have pose: "getPelvisPose [x0, x1, x2, x3, x4, x5, x6] =
           Inr (Vector3 x0 x1 x2, Quaternion x3 x4 x5 x6)"
    by (simp add: getPelvisPose_def)
  have pm: "\<And>t. \<exists>pm pt. makeIHMCPelvisTrajectoryMessage ext t [x0, x1, x2, x3, x4, x5, x6] p =
                    Inr pm \<and>
                  se3_taskspace_trajectory_points (pelvis_se3_trajectory pm) = [pt] \<and>
                  se3_point_position pt = Vector3 x0 x1 x2 \<and>
                  se3_point_orientation pt = Quaternion x3 x4 x5 x6"
    by (simp add: makeIHMCPelvisTrajectoryMessage_def pose makeIHMCSE3TrajectoryMessage_def
        makeIHMCSE3TrajectoryPointMessage_def makePointMessage_def makeQuaternionMessage_def)
  have whole: "\<forall>wb. makeIHMCWholeBodyTrajectoryMessage rob ext q p = Inr wb \<longrightarrow>
            (\<exists>pm pt. pelvis_trajectory_message wb = Some pm \<and>
                     se3_taskspace_trajectory_points (pelvis_se3_trajectory pm) = [pt] \<and>
                     se3_point_position pt = Vector3 x0 x1 x2 \<and>
                     se3_point_orientation pt = Quaternion x3 x4 x5 x6)"
  proof (intro allI impI)
    fix wb
    assume ok: "makeIHMCWholeBodyTrajectoryMessage rob ext q p = Inr wb"
    from ok obtain larm rarm pelvis_part neck where
      c: "(if pelvis rob \<in> set (params_controlled_links p) then
        (case selectRelevantJointsConfiguration q (getRelevantJointIndicesPelvis rob) of
           Inl e \<Rightarrow> Inl e
         | Inr q_pelvis \<Rightarrow>
             (case makeIHMCPelvisTrajectoryMessage ext (system_clock_now ext Pelvis) q_pelvis p of
                Inl e \<Rightarrow> Inl e
              | Inr pelvis_msg \<Rightarrow> Inr (Some pelvis_msg)))
      else Inr None) = Inr pelvis_part"
      and wb: "pelvis_trajectory_message wb = pelvis_part"
      by (rule wholebody_Inr_parts) simp
    from pm[of "system_clock_now ext Pelvis"] obtain pm0 pt where
      m: "makeIHMCPelvisTrajectoryMessage ext (system_clock_now ext Pelvis)
            [x0, x1, x2, x3, x4, x5, x6] p = Inr pm0"
      and pt: "se3_taskspace_trajectory_points (pelvis_se3_trajectory pm0) = [pt]"
        "se3_point_position pt = Vector3 x0 x1 x2"
        "se3_point_orientation pt = Quaternion x3 x4 x5 x6"
      by blast
    from c assms(9) sel m have "pelvis_part = Some pm0" by simp
    with wb pt show "\<exists>pm pt. pelvis_trajectory_message wb = Some pm \<and>
                     se3_taskspace_trajectory_points (pelvis_se3_trajectory pm) = [pt] \<and>
                     se3_point_position pt = Vector3 x0 x1 x2 \<and>
                     se3_point_orientation pt = Quaternion x3 x4 x5 x6"
      by simp
  qed
  from sel pose pm[of now] whole show ?thesis by blast
qed

theorem pelvis_pose_read_from_root_slots_witness:
  "virtual_X example_robot = 0 \<and> virtual_Y example_robot = 1 \<and> virtual_Z example_robot = 2 \<and>
   virtual_Rx example_robot = 3 \<and> virtual_Ry example_robot = 4 \<and>
   virtual_Rz example_robot = 5 \<and> virtual_Rw example_robot = 6 \<and>
   pelvis example_robot \<in> set [pelvis example_robot] \<and>
   selectRelevantJointsConfiguration
     [1, 2, 3, 0, 0, 0, 1, 0.1, 0.2, 0.3, 0.4, 0.5, 0, 0, 0, 0, 0, 0, 0, 0]
     (getRelevantJointIndicesPelvis example_robot) = Inr [1, 2, 3, 0, 0, 0, 1] \<and>
   getPelvisPose [1, 2, 3, 0, 0, 0, 1] = Inr (Vector3 1 2 3, Quaternion 0 0 0 1) \<and>
   (\<exists>wb pm pt. makeIHMCWholeBodyTrajectoryMessage example_robot example_external
           [1, 2, 3, 0, 0, 0, 1, 0.1, 0.2, 0.3, 0.4, 0.5, 0, 0, 0, 0, 0, 0, 0, 0]
           (example_params\<lparr>params_controlled_links := [pelvis example_robot]\<rparr>) = Inr wb \<and>
         pelvis_trajectory_message wb = Some pm \<and>
         se3_taskspace_trajectory_points (pelvis_se3_trajectory pm) = [pt] \<and>
         se3_point_position pt = Vector3 1 2 3 \<and>
         se3_point_orientation pt = Quaternion 0 0 0 1)"
proof -
  let ?q = "[1, 2, 3, 0, 0, 0, 1, 0.1, 0.2, 0.3, 0.4, 0.5, 0, 0, 0, 0, 0, 0, 0, 0] :: real list"
  let ?p = "example_params\<lparr>params_controlled_links := [pelvis example_robot]\<rparr>"
  have i: "virtual_X example_robot = 0" "virtual_Y example_robot = 1"
    "virtual_Z example_robot = 2" "virtual_Rx example_robot = 3"
    "virtual_Ry example_robot = 4" "virtual_Rz example_robot = 5"
    "virtual_Rw example_robot = 6"
    by (simp_all add: example_robot_def)
  have t: "take 7 ?q = [1, 2, 3, 0, 0, 0, 1]"
    by (simp add: eval_nat_numeral)
  have l: "pelvis example_robot \<in> set (params_controlled_links ?p)" by simp
  have "\<exists>wb. makeIHMCWholeBodyTrajectoryMessage example_robot example_external ?q ?p = Inr wb"
    by (simp add: utility_defs example_defs Let_def)
  then obtain wb where
    wb: "makeIHMCWholeBodyTrajectoryMessage example_robot example_external ?q ?p = Inr wb"
    by blast
  note th = pelvis_pose_read_from_root_slots[OF i t l, where ext = example_external and now = 0]
  from th have a: "selectRelevantJointsConfiguration ?q
      (getRelevantJointIndicesPelvis example_robot) = Inr [1, 2, 3, 0, 0, 0, 1]"
    by (rule conjunct1)
  from th have b: "getPelvisPose [1, 2, 3, 0, 0, 0, 1] =
      Inr (Vector3 1 2 3, Quaternion 0 0 0 1)"
    by (rule conjunct1[OF conjunct2])
  from th wb have c: "\<exists>wb pm pt.
         makeIHMCWholeBodyTrajectoryMessage example_robot example_external ?q ?p = Inr wb \<and>
         pelvis_trajectory_message wb = Some pm \<and>
         se3_taskspace_trajectory_points (pelvis_se3_trajectory pm) = [pt] \<and>
         se3_point_position pt = Vector3 1 2 3 \<and>
         se3_point_orientation pt = Quaternion 0 0 0 1"
    by blast
  from i a b c show ?thesis by simp
qed

section \<open>Fields that depend on the mode\<close>

lemma arm_queueing:
  "jointspace_queueing_properties (arm_jointspace_trajectory
     (makeIHMCArmTrajectoryMessage now qj side p)) = makeIHMCQueueableMessage now p"
  by (simp add: makeIHMCArmTrajectoryMessage_def makeIHMCJointspaceTrajectoryMessage_def)

lemma arm_times:
  "set (jointspaceTimes (arm_jointspace_trajectory
     (makeIHMCArmTrajectoryMessage now qj side p))) \<subseteq> {traj_point_params_time p}"
  by (simp add: makeIHMCArmTrajectoryMessage_def jointspaceTimes_make)

lemma neck_queueing:
  "jointspace_queueing_properties (neck_jointspace_trajectory
     (makeIHMCNeckTrajectoryMessage now qj p)) = makeIHMCQueueableMessage now p"
  by (simp add: makeIHMCNeckTrajectoryMessage_def makeIHMCJointspaceTrajectoryMessage_def)

lemma neck_times:
  "set (jointspaceTimes (neck_jointspace_trajectory
     (makeIHMCNeckTrajectoryMessage now qj p))) \<subseteq> {traj_point_params_time p}"
  by (simp add: makeIHMCNeckTrajectoryMessage_def jointspaceTimes_make)

lemma chest_queueing:
  "so3_queueing_properties (chest_so3_trajectory
     (makeIHMCChestTrajectoryMessage ext now quat p)) = makeIHMCQueueableMessage now p"
  by (simp add: makeIHMCChestTrajectoryMessage_def makeIHMCSO3TrajectoryMessage_def)

lemma chest_times:
  "map so3_point_time (so3_taskspace_trajectory_points (chest_so3_trajectory
     (makeIHMCChestTrajectoryMessage ext now quat p))) = [traj_point_params_time p]"
  by (simp add: makeIHMCChestTrajectoryMessage_def makeIHMCSO3TrajectoryMessage_def
      makeIHMCSO3TrajectoryPointMessage_def)

lemma pelvis_queueing:
  "makeIHMCPelvisTrajectoryMessage ext now qj p = Inr pm \<Longrightarrow>
   se3_queueing_properties (pelvis_se3_trajectory pm) = makeIHMCQueueableMessage now p \<and>
   map se3_point_time (se3_taskspace_trajectory_points (pelvis_se3_trajectory pm)) =
     [traj_point_params_time p]"
  by (auto simp add: makeIHMCPelvisTrajectoryMessage_def makeIHMCSE3TrajectoryMessage_def
      makeIHMCSE3TrajectoryPointMessage_def split: sum.splits)

lemma wholebody_queueing_and_times:
  assumes "makeIHMCWholeBodyTrajectoryMessage rob ext q p = Inr wb"
  shows "\<forall>qm\<in>set (queueingProperties wb). \<exists>now. qm = makeIHMCQueueableMessage now p"
    and "\<forall>t\<in>set (trajectoryPointTimes wb). t = traj_point_params_time p"
proof -
  from assms obtain larm rarm pelvis_part neck where
    l: "(if leftPalm rob \<in> set (params_controlled_links p) then
        (case selectRelevantJointsConfiguration q (getRelevantJointIndicesLeftArm rob) of
           Inl e \<Rightarrow> Inl e
         | Inr q_larm \<Rightarrow>
             Inr (Some (makeIHMCArmTrajectoryMessage (system_clock_now ext LeftArm) q_larm 0 p)))
      else Inr None) = Inr larm"
    and r: "(if rightPalm rob \<in> set (params_controlled_links p) then
        (case selectRelevantJointsConfiguration q (getRelevantJointIndicesRightArm rob) of
           Inl e \<Rightarrow> Inl e
         | Inr q_rarm \<Rightarrow>
             Inr (Some (makeIHMCArmTrajectoryMessage (system_clock_now ext RightArm) q_rarm 1 p)))
      else Inr None) = Inr rarm"
    and c: "(if pelvis rob \<in> set (params_controlled_links p) then
        (case selectRelevantJointsConfiguration q (getRelevantJointIndicesPelvis rob) of
           Inl e \<Rightarrow> Inl e
         | Inr q_pelvis \<Rightarrow>
             (case makeIHMCPelvisTrajectoryMessage ext (system_clock_now ext Pelvis) q_pelvis p of
                Inl e \<Rightarrow> Inl e
              | Inr pelvis_msg \<Rightarrow> Inr (Some pelvis_msg)))
      else Inr None) = Inr pelvis_part"
    and n: "(if head rob \<in> set (params_controlled_links p) then
        (case selectRelevantJointsConfiguration q (getRelevantJointIndicesNeck rob) of
           Inl e \<Rightarrow> Inl e
         | Inr q_neck \<Rightarrow>
             Inr (Some (makeIHMCNeckTrajectoryMessage (system_clock_now ext Neck) q_neck p)))
      else Inr None) = Inr neck"
    and wb: "wb = \<lparr> wholebody_sequence_id = params_sequence_id p,
            left_arm_trajectory_message = larm,
            right_arm_trajectory_message = rarm,
            chest_trajectory_message =
              (if torso rob \<in> set (params_controlled_links p) then
                 Some (makeIHMCChestTrajectoryMessage ext (system_clock_now ext Chest)
                         (getChestOrientation ext q) p)
               else None),
            pelvis_trajectory_message = pelvis_part,
            neck_trajectory_message = neck \<rparr>"
    by (rule wholebody_Inr_parts)
  from l have "larm = None \<or>
      (\<exists>qj. larm = Some (makeIHMCArmTrajectoryMessage (system_clock_now ext LeftArm) qj 0 p))"
    by (auto split: if_splits sum.splits)
  then have L: "\<And>m. larm = Some m \<Longrightarrow>
      jointspace_queueing_properties (arm_jointspace_trajectory m) =
        makeIHMCQueueableMessage (system_clock_now ext LeftArm) p \<and>
      set (jointspaceTimes (arm_jointspace_trajectory m)) \<subseteq> {traj_point_params_time p}"
    using arm_queueing arm_times by fastforce
  from r have "rarm = None \<or>
      (\<exists>qj. rarm = Some (makeIHMCArmTrajectoryMessage (system_clock_now ext RightArm) qj 1 p))"
    by (auto split: if_splits sum.splits)
  then have R: "\<And>m. rarm = Some m \<Longrightarrow>
      jointspace_queueing_properties (arm_jointspace_trajectory m) =
        makeIHMCQueueableMessage (system_clock_now ext RightArm) p \<and>
      set (jointspaceTimes (arm_jointspace_trajectory m)) \<subseteq> {traj_point_params_time p}"
    using arm_queueing arm_times by fastforce
  from n have "neck = None \<or>
      (\<exists>qj. neck = Some (makeIHMCNeckTrajectoryMessage (system_clock_now ext Neck) qj p))"
    by (auto split: if_splits sum.splits)
  then have N: "\<And>m. neck = Some m \<Longrightarrow>
      jointspace_queueing_properties (neck_jointspace_trajectory m) =
        makeIHMCQueueableMessage (system_clock_now ext Neck) p \<and>
      set (jointspaceTimes (neck_jointspace_trajectory m)) \<subseteq> {traj_point_params_time p}"
    using neck_queueing neck_times by fastforce
  from c have "pelvis_part = None \<or>
      (\<exists>qj pm. pelvis_part = Some pm \<and>
         makeIHMCPelvisTrajectoryMessage ext (system_clock_now ext Pelvis) qj p = Inr pm)"
    by (auto split: if_splits sum.splits)
  then have P: "\<And>m. pelvis_part = Some m \<Longrightarrow>
      se3_queueing_properties (pelvis_se3_trajectory m) =
        makeIHMCQueueableMessage (system_clock_now ext Pelvis) p \<and>
      map se3_point_time (se3_taskspace_trajectory_points (pelvis_se3_trajectory m)) =
        [traj_point_params_time p]"
    using pelvis_queueing by fastforce
  show "\<forall>qm\<in>set (queueingProperties wb). \<exists>now. qm = makeIHMCQueueableMessage now p"
    using L R N P chest_queueing
    by (auto simp add: queueingProperties_def wb split: option.splits if_splits)
  show "\<forall>t\<in>set (trajectoryPointTimes wb). t = traj_point_params_time p"
  proof
    fix t
    assume "t \<in> set (trajectoryPointTimes wb)"
    then consider
        m where "larm = Some m" "t \<in> set (jointspaceTimes (arm_jointspace_trajectory m))"
      | m where "rarm = Some m" "t \<in> set (jointspaceTimes (arm_jointspace_trajectory m))"
      | "torso rob \<in> set (params_controlled_links p)"
        "t \<in> set (map so3_point_time (so3_taskspace_trajectory_points (chest_so3_trajectory
           (makeIHMCChestTrajectoryMessage ext (system_clock_now ext Chest)
              (getChestOrientation ext q) p))))"
      | m where "pelvis_part = Some m"
          "t \<in> set (map se3_point_time (se3_taskspace_trajectory_points (pelvis_se3_trajectory m)))"
      | m where "neck = Some m" "t \<in> set (jointspaceTimes (neck_jointspace_trajectory m))"
      unfolding trajectoryPointTimes_def wb
      by (auto split: option.splits if_splits)
    then show "t = traj_point_params_time p"
    proof cases
      case 1
      with L[OF 1(1)] show ?thesis by blast
    next
      case 2
      with R[OF 2(1)] show ?thesis by blast
    next
      case 3
      then show ?thesis unfolding chest_times by simp
    next
      case 4
      with P[OF 4(1)] show ?thesis by simp
    next
      case 5
      with N[OF 5(1)] show ?thesis by blast
    qed
  qed
qed

lemma prepareConfigurationVector_flags:
  "prepareConfigurationVector rob ext s = Inr s1 \<Longrightarrow> \<exists>v. s1 = s\<lparr>m_q := v\<rparr>"
  by (auto simp add: prepareConfigurationVector_def Let_def split: sum.splits)

lemma publishWholeBodyMessage_Inr:
  assumes "publishWholeBodyMessage rob ext s = Inr (s', wb)"
  shows "prepareConfigurationVector rob ext s = Inr s'"
    and "makeIHMCWholeBodyTrajectoryMessage rob ext (m_q s')
           (if commands_from_controllers s then
              (default_IHMCMessageParameters ext)
                \<lparr>params_controlled_links := controlled_links s,
                 queueable_params_execution_mode := 2,
                 queueable_params_stream_integration_duration := 0.13,
                 traj_point_params_time := 0\<rparr>
            else (default_IHMCMessageParameters ext)
                \<lparr>params_controlled_links := controlled_links s\<rparr>) = Inr wb"
proof -
  define p where "p =
     (if commands_from_controllers s then
        (default_IHMCMessageParameters ext)
          \<lparr>params_controlled_links := controlled_links s,
           queueable_params_execution_mode := 2,
           queueable_params_stream_integration_duration := 0.13,
           traj_point_params_time := 0\<rparr>
      else (default_IHMCMessageParameters ext)
          \<lparr>params_controlled_links := controlled_links s\<rparr>)"
  from assms obtain s1 where s1: "prepareConfigurationVector rob ext s = Inr s1"
    by (cases "prepareConfigurationVector rob ext s") (auto simp add: publishWholeBodyMessage_def)
  from prepareConfigurationVector_flags[OF s1] obtain v where "s1 = s\<lparr>m_q := v\<rparr>" by blast
  with s1 have v: "prepareConfigurationVector rob ext s = Inr (s\<lparr>m_q := v\<rparr>)" by simp
  have "publishWholeBodyMessage rob ext s =
          (case makeIHMCWholeBodyTrajectoryMessage rob ext v p of
             Inl e \<Rightarrow> Inl e
           | Inr wholebody_msg \<Rightarrow> Inr (s\<lparr>m_q := v\<rparr>, wholebody_msg))"
    unfolding publishWholeBodyMessage_def p_def Let_def v by simp
  with assms have r: "makeIHMCWholeBodyTrajectoryMessage rob ext v p = Inr wb \<and> s\<lparr>m_q := v\<rparr> = s'"
    by (cases "makeIHMCWholeBodyTrajectoryMessage rob ext v p") auto
  with v show "prepareConfigurationVector rob ext s = Inr s'" by simp
  from r have "m_q s' = v" by auto
  with r show "makeIHMCWholeBodyTrajectoryMessage rob ext (m_q s')
           (if commands_from_controllers s then
              (default_IHMCMessageParameters ext)
                \<lparr>params_controlled_links := controlled_links s,
                 queueable_params_execution_mode := 2,
                 queueable_params_stream_integration_duration := 0.13,
                 traj_point_params_time := 0\<rparr>
            else (default_IHMCMessageParameters ext)
                \<lparr>params_controlled_links := controlled_links s\<rparr>) = Inr wb"
    unfolding p_def by simp
qed

lemma queueable_fields:
  "execution_mode (makeIHMCQueueableMessage now p) = queueable_params_execution_mode p"
  "stream_integration_duration (makeIHMCQueueableMessage now p) =
     (if queueable_params_execution_mode p = 2
      then Some (queueable_params_stream_integration_duration p) else None)"
  by (simp_all add: makeIHMCQueueableMessage_def)

text \<open>
  Claim C7. Let \<open>publishWholeBodyMessage\<close> publish the message \<open>wb\<close>. When the
  commands come from the controllers (streaming), every queueable message of an assembled
  body part has execution mode 2 and stream integration duration 0.13, and every trajectory
  point has time 0. Otherwise (one shot), when the default parameters have execution mode 0
  and time 1.0, every such queueable message has execution mode 0 and no stream integration
  duration, and every trajectory point has time 1.0. In both modes the stream integration
  duration is set exactly in the queueable messages whose execution mode is 2.
\<close>

theorem mode_dependent_fields:
  assumes "publishWholeBodyMessage rob ext s = Inr (s', wb)"
  shows "(commands_from_controllers s \<longrightarrow>
            (\<forall>qm\<in>set (queueingProperties wb).
               execution_mode qm = 2 \<and> stream_integration_duration qm = Some 0.13) \<and>
            (\<forall>t\<in>set (trajectoryPointTimes wb). t = 0)) \<and>
         (\<not> commands_from_controllers s \<and>
          queueable_params_execution_mode (default_IHMCMessageParameters ext) = 0 \<and>
          traj_point_params_time (default_IHMCMessageParameters ext) = 1 \<longrightarrow>
            (\<forall>qm\<in>set (queueingProperties wb).
               execution_mode qm = 0 \<and> stream_integration_duration qm = None) \<and>
            (\<forall>t\<in>set (trajectoryPointTimes wb). t = 1)) \<and>
         (\<forall>qm\<in>set (queueingProperties wb).
            (stream_integration_duration qm \<noteq> None) = (execution_mode qm = 2))"
proof -
  define p where "p =
     (if commands_from_controllers s then
        (default_IHMCMessageParameters ext)
          \<lparr>params_controlled_links := controlled_links s,
           queueable_params_execution_mode := 2,
           queueable_params_stream_integration_duration := 0.13,
           traj_point_params_time := 0\<rparr>
      else (default_IHMCMessageParameters ext)
          \<lparr>params_controlled_links := controlled_links s\<rparr>)"
  from publishWholeBodyMessage_Inr(2)[OF assms]
  have mk: "makeIHMCWholeBodyTrajectoryMessage rob ext (m_q s') p = Inr wb"
    unfolding p_def .
  note qt = wholebody_queueing_and_times[OF mk]
  from qt(1) have q: "\<And>qm. qm \<in> set (queueingProperties wb) \<Longrightarrow>
      execution_mode qm = queueable_params_execution_mode p \<and>
      stream_integration_duration qm =
        (if queueable_params_execution_mode p = 2
         then Some (queueable_params_stream_integration_duration p) else None)"
    by (auto simp add: queueable_fields)
  have stream: "commands_from_controllers s \<longrightarrow>
            (\<forall>qm\<in>set (queueingProperties wb).
               execution_mode qm = 2 \<and> stream_integration_duration qm = Some 0.13) \<and>
            (\<forall>t\<in>set (trajectoryPointTimes wb). t = 0)"
  proof
    assume cfc: "commands_from_controllers s"
    then have m: "queueable_params_execution_mode p = 2"
      and d: "queueable_params_stream_integration_duration p = 0.13"
      and t: "traj_point_params_time p = 0"
      by (simp_all add: p_def)
    from q m d qt(2) t
    show "(\<forall>qm\<in>set (queueingProperties wb).
               execution_mode qm = 2 \<and> stream_integration_duration qm = Some 0.13) \<and>
            (\<forall>t\<in>set (trajectoryPointTimes wb). t = 0)"
      by simp
  qed
  have oneshot: "\<not> commands_from_controllers s \<and>
          queueable_params_execution_mode (default_IHMCMessageParameters ext) = 0 \<and>
          traj_point_params_time (default_IHMCMessageParameters ext) = 1 \<longrightarrow>
            (\<forall>qm\<in>set (queueingProperties wb).
               execution_mode qm = 0 \<and> stream_integration_duration qm = None) \<and>
            (\<forall>t\<in>set (trajectoryPointTimes wb). t = 1)"
  proof
    assume h: "\<not> commands_from_controllers s \<and>
          queueable_params_execution_mode (default_IHMCMessageParameters ext) = 0 \<and>
          traj_point_params_time (default_IHMCMessageParameters ext) = 1"
    then have m: "queueable_params_execution_mode p = 0"
      and t: "traj_point_params_time p = 1"
      by (simp_all add: p_def)
    from q m qt(2) t
    show "(\<forall>qm\<in>set (queueingProperties wb).
               execution_mode qm = 0 \<and> stream_integration_duration qm = None) \<and>
            (\<forall>t\<in>set (trajectoryPointTimes wb). t = 1)"
      by simp
  qed
  have only: "\<forall>qm\<in>set (queueingProperties wb).
            (stream_integration_duration qm \<noteq> None) = (execution_mode qm = 2)"
    using q by simp
  from stream oneshot only show ?thesis by blast
qed

lemma ready_oneshot_fields:
  "commands_from_controllers example_ready_oneshot = False"
  "publish_commands example_ready_oneshot = True"
  "stop_node example_ready_oneshot = True"
  "controlled_links example_ready_oneshot = [0, 1, 2, 3, 4, 5, 6]"
  "tf_pelvis_wrt_world example_ready_oneshot =
     \<lparr> tf_origin = Vector3 1 2 3, tf_rotation = Quaternion 0 0 0 1 \<rparr>"
  "m_q_joint example_ready_oneshot = [0, 0, 0, 0.5, 0, 0, 0.25, 0, 0, 0, 0, 0, 0]"
  by (simp_all add: example_ready_oneshot_def node_defs example_defs Let_def eval_nat_numeral)

lemma publish_oneshot:
  "\<not> isl (publishWholeBodyMessage example_robot example_external example_ready_oneshot)"
  "length (queueingProperties (snd (projr
     (publishWholeBodyMessage example_robot example_external example_ready_oneshot)))) = 5"
  "length (trajectoryPointTimes (snd (projr
     (publishWholeBodyMessage example_robot example_external example_ready_oneshot)))) = 19"
  by (simp_all add: publishWholeBodyMessage_def prepareConfigurationVector_def
      ready_oneshot_fields example_defs Let_def setCoeff_def eval_nat_numeral
      makeIHMCWholeBodyTrajectoryMessage_def checkControlledLink_def
      getRelevantJointIndicesLeftArm_def getRelevantJointIndicesRightArm_def
      getRelevantJointIndicesNeck_def getRelevantJointIndicesPelvis_def
      makeIHMCPelvisTrajectoryMessage_def getPelvisPose_def
      queueingProperties_def trajectoryPointTimes_def jointspaceTimes_def
      makeIHMCArmTrajectoryMessage_def makeIHMCNeckTrajectoryMessage_def
      makeIHMCJointspaceTrajectoryMessage_def makeIHMCOneDoFJointTrajectoryMessage_def
      makeIHMCChestTrajectoryMessage_def makeIHMCSO3TrajectoryMessage_def
      makeIHMCSE3TrajectoryMessage_def)

lemma ready_streaming_fields:
  "commands_from_controllers example_ready_streaming = True"
  "publish_commands example_ready_streaming = True"
  "controlled_links example_ready_streaming = [0, 5]"
  "tf_pelvis_wrt_world example_ready_streaming =
     \<lparr> tf_origin = Vector3 1 2 3, tf_rotation = Quaternion 0 0 0 1 \<rparr>"
  "m_q_joint example_ready_streaming = [0, 0, 0, 0.5, 0, 0, 0.25, 0, 0, 0, 0, 0, 0]"
  by (simp_all add: example_ready_streaming_def node_defs example_defs Let_def eval_nat_numeral)

lemma publish_streaming:
  "\<not> isl (publishWholeBodyMessage example_robot example_external example_ready_streaming)"
  "length (queueingProperties (snd (projr
     (publishWholeBodyMessage example_robot example_external example_ready_streaming)))) = 2"
  "length (trajectoryPointTimes (snd (projr
     (publishWholeBodyMessage example_robot example_external example_ready_streaming)))) = 8"
  by (simp_all add: publish_defs ready_streaming_fields example_defs Let_def eval_nat_numeral
      utility_defs observer_defs)

theorem mode_dependent_fields_witness:
  "commands_from_controllers example_ready_streaming \<and>
   \<not> isl (publishWholeBodyMessage example_robot example_external example_ready_streaming) \<and>
   length (queueingProperties (snd (projr
     (publishWholeBodyMessage example_robot example_external example_ready_streaming)))) = 2 \<and>
   list_all (\<lambda>qm. execution_mode qm = 2 \<and> stream_integration_duration qm = Some 0.13)
     (queueingProperties (snd (projr
       (publishWholeBodyMessage example_robot example_external example_ready_streaming)))) \<and>
   length (trajectoryPointTimes (snd (projr
     (publishWholeBodyMessage example_robot example_external example_ready_streaming)))) = 8 \<and>
   list_all (\<lambda>t. t = 0)
     (trajectoryPointTimes (snd (projr
       (publishWholeBodyMessage example_robot example_external example_ready_streaming)))) \<and>
   \<not> commands_from_controllers example_ready_oneshot \<and>
   queueable_params_execution_mode (default_IHMCMessageParameters example_external) = 0 \<and>
   traj_point_params_time (default_IHMCMessageParameters example_external) = 1 \<and>
   \<not> isl (publishWholeBodyMessage example_robot example_external example_ready_oneshot) \<and>
   length (queueingProperties (snd (projr
     (publishWholeBodyMessage example_robot example_external example_ready_oneshot)))) = 5 \<and>
   list_all (\<lambda>qm. execution_mode qm = 0 \<and> stream_integration_duration qm = None)
     (queueingProperties (snd (projr
       (publishWholeBodyMessage example_robot example_external example_ready_oneshot)))) \<and>
   length (trajectoryPointTimes (snd (projr
     (publishWholeBodyMessage example_robot example_external example_ready_oneshot)))) = 19 \<and>
   list_all (\<lambda>t. t = 1)
     (trajectoryPointTimes (snd (projr
       (publishWholeBodyMessage example_robot example_external example_ready_oneshot))))"
proof -
  let ?rs = "publishWholeBodyMessage example_robot example_external example_ready_streaming"
  let ?ro = "publishWholeBodyMessage example_robot example_external example_ready_oneshot"
  from publish_streaming(1) have hs: "?rs = Inr (fst (projr ?rs), snd (projr ?rs))"
    by (cases ?rs) auto
  from publish_oneshot(1) have ho: "?ro = Inr (fst (projr ?ro), snd (projr ?ro))"
    by (cases ?ro) auto
  have d: "queueable_params_execution_mode (default_IHMCMessageParameters example_external) = 0 \<and>
           traj_point_params_time (default_IHMCMessageParameters example_external) = 1"
    by (simp add: example_external_def example_params_def)
  have a: "list_all (\<lambda>qm. execution_mode qm = 2 \<and> stream_integration_duration qm = Some 0.13)
             (queueingProperties (snd (projr ?rs))) \<and>
           list_all (\<lambda>t. t = 0) (trajectoryPointTimes (snd (projr ?rs)))"
    using conjunct1[OF mode_dependent_fields[OF hs]] ready_streaming_fields(1)
    by (simp add: list_all_iff)
  have b: "list_all (\<lambda>qm. execution_mode qm = 0 \<and> stream_integration_duration qm = None)
             (queueingProperties (snd (projr ?ro))) \<and>
           list_all (\<lambda>t. t = 1) (trajectoryPointTimes (snd (projr ?ro)))"
    using conjunct1[OF conjunct2[OF mode_dependent_fields[OF ho]]] ready_oneshot_fields(1) d
    by (simp add: list_all_iff)
  from a b d ready_streaming_fields(1) ready_oneshot_fields(1) publish_streaming publish_oneshot
  show ?thesis by simp
qed

section \<open>Home commands\<close>

lemma publishGoHomeMessage_snd:
  "snd (publishGoHomeMessage ext s) =
     (if home_left_arm s then [makeIHMCHomeLeftArmMessage (default_IHMCMessageParameters ext)] else []) @
     (if home_right_arm s then [makeIHMCHomeRightArmMessage (default_IHMCMessageParameters ext)] else []) @
     (if home_chest s then [makeIHMCHomeChestMessage (default_IHMCMessageParameters ext)] else []) @
     (if home_pelvis s then [makeIHMCHomePelvisMessage (default_IHMCMessageParameters ext)] else [])"
  by (simp add: publishGoHomeMessage_def Let_def)

lemma publishGoHomeMessage_fst:
  "fst (publishGoHomeMessage ext s) =
     s\<lparr>home_left_arm := False, home_right_arm := False, home_chest := False,
       home_pelvis := False, publish_go_home_command := False\<rparr>"
proof -
  have e: "\<And>t. (if home_left_arm t then t\<lparr>home_left_arm := False\<rparr> else t) = t\<lparr>home_left_arm := False\<rparr>"
    "\<And>t. (if home_right_arm t then t\<lparr>home_right_arm := False\<rparr> else t) = t\<lparr>home_right_arm := False\<rparr>"
    "\<And>t. (if home_chest t then t\<lparr>home_chest := False\<rparr> else t) = t\<lparr>home_chest := False\<rparr>"
    "\<And>t. (if home_pelvis t then t\<lparr>home_pelvis := False\<rparr> else t) = t\<lparr>home_pelvis := False\<rparr>"
    by (simp_all add: IHMCInterfaceNode.equality)
  have "fst (publishGoHomeMessage ext s) =
     updatePublishGoHomeCommandFlag
       (let s1 = (if home_left_arm s then s\<lparr>home_left_arm := False\<rparr> else s);
            s2 = (if home_right_arm s1 then s1\<lparr>home_right_arm := False\<rparr> else s1);
            s3 = (if home_chest s2 then s2\<lparr>home_chest := False\<rparr> else s2)
        in (if home_pelvis s3 then s3\<lparr>home_pelvis := False\<rparr> else s3))"
    by (simp add: publishGoHomeMessage_def Let_def split_beta if_distrib[of fst] cong: if_cong)
  then show ?thesis
    unfolding e Let_def by (simp add: updatePublishGoHomeCommandFlag_def)
qed

text \<open>
  Claim C9. \<open>publishGoHomeMessage\<close> publishes one message for each body part whose
  homing flag is set, in the order left arm, right arm, chest, pelvis; the two arm messages
  carry a side, the other two do not. Afterwards the four flags are false and
  \<open>publish_go_home_command_\<close>, recomputed from them, is false. After \<open>HOME-LEFTARM\<close>
  one call publishes exactly the message for the left arm, and a second call publishes
  nothing.
\<close>

theorem go_home_messages_in_fixed_order:
  "fst (publishGoHomeMessage ext s) =
     s\<lparr>home_left_arm := False, home_right_arm := False, home_chest := False,
       home_pelvis := False, publish_go_home_command := False\<rparr> \<and>
   snd (publishGoHomeMessage ext s) =
     (if home_left_arm s then
        [\<lparr>humanoid_body_part = HUMANOID_BODY_PART_ARM, robot_side = Some ROBOT_SIDE_LEFT,
          trajectory_time = go_home_params_trajectory_time (default_IHMCMessageParameters ext)\<rparr>]
      else []) @
     (if home_right_arm s then
        [\<lparr>humanoid_body_part = HUMANOID_BODY_PART_ARM, robot_side = Some ROBOT_SIDE_RIGHT,
          trajectory_time = go_home_params_trajectory_time (default_IHMCMessageParameters ext)\<rparr>]
      else []) @
     (if home_chest s then
        [\<lparr>humanoid_body_part = HUMANOID_BODY_PART_CHEST, robot_side = None,
          trajectory_time = go_home_params_trajectory_time (default_IHMCMessageParameters ext)\<rparr>]
      else []) @
     (if home_pelvis s then
        [\<lparr>humanoid_body_part = HUMANOID_BODY_PART_PELVIS, robot_side = None,
          trajectory_time = go_home_params_trajectory_time (default_IHMCMessageParameters ext)\<rparr>]
      else []) \<and>
   getPublishGoHomeCommandFlag (fst (publishGoHomeMessage ext s)) = False"
  unfolding publishGoHomeMessage_snd publishGoHomeMessage_fst getPublishGoHomeCommandFlag_def
    makeIHMCHomeLeftArmMessage_def makeIHMCHomeRightArmMessage_def
    makeIHMCHomeChestMessage_def makeIHMCHomePelvisMessage_def
  by simp

theorem go_home_messages_in_fixed_order_witness:
  "getPublishGoHomeCommandFlag example_home_left_arm \<and>
   snd (publishGoHomeMessage example_external example_home_left_arm) =
     [\<lparr>humanoid_body_part = HUMANOID_BODY_PART_ARM, robot_side = Some ROBOT_SIDE_LEFT,
       trajectory_time = 3\<rparr>] \<and>
   \<not> getPublishGoHomeCommandFlag (fst (publishGoHomeMessage example_external example_home_left_arm)) \<and>
   snd (publishGoHomeMessage example_external
          (fst (publishGoHomeMessage example_external example_home_left_arm))) = []"
proof -
  have f: "home_left_arm example_home_left_arm" "\<not> home_right_arm example_home_left_arm"
    "\<not> home_chest example_home_left_arm" "\<not> home_pelvis example_home_left_arm"
    "getPublishGoHomeCommandFlag example_home_left_arm"
    by (simp_all add: example_home_left_arm_def statusCallback_def constructNode_def
        updatePublishGoHomeCommandFlag_def getPublishGoHomeCommandFlag_def)
  have t: "go_home_params_trajectory_time (default_IHMCMessageParameters example_external) = 3"
    by (simp add: example_external_def example_params_def)
  note first = go_home_messages_in_fixed_order[of example_external example_home_left_arm]
  note second = go_home_messages_in_fixed_order[of example_external
      "fst (publishGoHomeMessage example_external example_home_left_arm)"]
  from first f t have a: "snd (publishGoHomeMessage example_external example_home_left_arm) =
     [\<lparr>humanoid_body_part = HUMANOID_BODY_PART_ARM, robot_side = Some ROBOT_SIDE_LEFT,
       trajectory_time = 3\<rparr>]"
    by simp
  from first have b: "\<not> getPublishGoHomeCommandFlag
      (fst (publishGoHomeMessage example_external example_home_left_arm))"
    by (simp add: getPublishGoHomeCommandFlag_def)
  from first have g: "fst (publishGoHomeMessage example_external example_home_left_arm) =
     example_home_left_arm\<lparr>home_left_arm := False, home_right_arm := False, home_chest := False,
       home_pelvis := False, publish_go_home_command := False\<rparr>"
    by (rule conjunct1)
  have c: "snd (publishGoHomeMessage example_external
          (fst (publishGoHomeMessage example_external example_home_left_arm))) = []"
    using second unfolding g by simp
  from f(5) a b c show ?thesis by simp
qed

section \<open>Who checks readiness\<close>

text \<open>
  Claim C3, as stated, fails for \<open>publishWholeBodyMessage\<close>: it has no check of
  \<open>publish_commands_\<close>. On a node in one-shot mode that has received a pose and no
  joints, \<open>getPublishCommandsFlag\<close> is false, and yet the call returns without an error
  and publishes a whole-body message with all five body parts.
\<close>

theorem publish_without_readiness_counterexample:
  "getPublishCommandsFlag example_pose_only = False \<and>
   isl (publishWholeBodyMessage example_robot example_external example_pose_only) = False \<and>
   length (queueingProperties (snd (projr
     (publishWholeBodyMessage example_robot example_external example_pose_only)))) = 5"
proof -
  have f: "publish_commands example_pose_only = False"
    "commands_from_controllers example_pose_only = False"
    "controlled_links example_pose_only = [0, 1, 2, 3, 4, 5, 6]"
    "tf_pelvis_wrt_world example_pose_only =
       \<lparr> tf_origin = Vector3 1 2 3, tf_rotation = Quaternion 0 0 0 1 \<rparr>"
    "m_q_joint example_pose_only = []"
    by (simp_all add: example_pose_only_def node_defs example_defs Let_def)
  show ?thesis
    by (simp add: getPublishCommandsFlag_def publish_defs f example_defs Let_def
        eval_nat_numeral utility_defs observer_defs)
qed

lemma prepareConfigurationVector_publish_flag:
  "prepareConfigurationVector rob ext (s\<lparr>publish_commands := b\<rparr>) =
     map_sum id (\<lambda>s1. s1\<lparr>publish_commands := b\<rparr>) (prepareConfigurationVector rob ext s)"
  by (simp add: prepareConfigurationVector_def Let_def split: sum.splits)

lemma publishWholeBodyMessage_publish_flag:
  "publishWholeBodyMessage rob ext (s\<lparr>publish_commands := b\<rparr>) =
     map_sum id (\<lambda>(s1, m). (s1\<lparr>publish_commands := b\<rparr>, m)) (publishWholeBodyMessage rob ext s)"
proof (cases "prepareConfigurationVector rob ext s")
  case (Inl e)
  then show ?thesis
    by (simp add: publishWholeBodyMessage_def prepareConfigurationVector_publish_flag)
next
  case (Inr s1)
  then show ?thesis
    by (simp add: publishWholeBodyMessage_def prepareConfigurationVector_publish_flag Let_def
        split: sum.splits)
qed

lemma publishWholeBodyMessage_node:
  assumes "publishWholeBodyMessage rob ext s = Inr (s1, m)"
  shows "\<exists>v. s1 = s\<lparr>m_q := v\<rparr>"
  using prepareConfigurationVector_flags[OF publishWholeBodyMessage_Inr(1)[OF assms]] .

lemma main_loop_body_published:
  assumes "main_loop_body rob ext s = Inr (s', out, brk)"
  shows "(\<exists>m. WholeBodyTrajectory m \<in> set out) \<longrightarrow> getPublishCommandsFlag s"
    and "(\<exists>m. GoHome m \<in> set out) \<longrightarrow> getPublishGoHomeCommandFlag s"
proof -
  show "(\<exists>m. WholeBodyTrajectory m \<in> set out) \<longrightarrow> getPublishCommandsFlag s"
    using assms
    by (auto simp add: main_loop_body_def split: if_splits sum.splits prod.splits)
  show "(\<exists>m. GoHome m \<in> set out) \<longrightarrow> getPublishGoHomeCommandFlag s"
  proof (cases "getCommandsFromControllersFlag s \<and> getPublishCommandsFlag s")
    case False
    with assms show ?thesis
      by (auto simp add: main_loop_body_def split: if_splits sum.splits prod.splits)
  next
    case True
    with assms obtain s1 m where p: "publishWholeBodyMessage rob ext s = Inr (s1, m)"
      by (auto simp add: main_loop_body_def split: if_splits sum.splits prod.splits)
    from publishWholeBodyMessage_node[OF p] obtain v where v: "s1 = s\<lparr>m_q := v\<rparr>" by blast
    then have g: "getPublishGoHomeCommandFlag s1 = getPublishGoHomeCommandFlag s"
      by (simp add: getPublishGoHomeCommandFlag_def)
    from assms True p g show ?thesis
      by (auto simp add: main_loop_body_def split: if_splits sum.splits prod.splits)
  qed
qed

text \<open>
  Claim C3, amended. \<open>publishGoHomeMessage\<close>, called with no homing flag set,
  publishes nothing and changes nothing but \<open>publish_go_home_command_\<close>, which it sets
  to false. \<open>publishWholeBodyMessage\<close> does not read \<open>publish_commands_\<close>: what it
  returns and publishes is the same whatever the flag is. The check is made by the caller:
  a pass through the loop of \<open>main\<close> publishes a whole-body message only when
  \<open>getPublishCommandsFlag\<close> is true and go-home messages only when
  \<open>getPublishGoHomeCommandFlag\<close> is true, and with both flags false it publishes
  nothing and leaves the node as it is.
\<close>

theorem readiness_is_checked_by_the_driver:
  "(\<not> home_left_arm s \<and> \<not> home_right_arm s \<and> \<not> home_chest s \<and> \<not> home_pelvis s \<longrightarrow>
      publishGoHomeMessage ext s = (s\<lparr>publish_go_home_command := False\<rparr>, [])) \<and>
   publishWholeBodyMessage rob ext (s\<lparr>publish_commands := b\<rparr>) =
     map_sum id (\<lambda>(s1, m). (s1\<lparr>publish_commands := b\<rparr>, m))
       (publishWholeBodyMessage rob ext s) \<and>
   (\<not> getPublishCommandsFlag s \<and> \<not> getPublishGoHomeCommandFlag s \<longrightarrow>
      main_loop_body rob ext s = Inr (s, [], False)) \<and>
   (\<forall>s' out brk. main_loop_body rob ext s = Inr (s', out, brk) \<longrightarrow>
      ((\<exists>m. WholeBodyTrajectory m \<in> set out) \<longrightarrow> getPublishCommandsFlag s) \<and>
      ((\<exists>m. GoHome m \<in> set out) \<longrightarrow> getPublishGoHomeCommandFlag s))"
proof (intro conjI impI allI)
  assume h: "\<not> home_left_arm s \<and> \<not> home_right_arm s \<and> \<not> home_chest s \<and> \<not> home_pelvis s"
  have "publishGoHomeMessage ext s =
          (fst (publishGoHomeMessage ext s), snd (publishGoHomeMessage ext s))" by simp
  also have "\<dots> = (s\<lparr>publish_go_home_command := False\<rparr>, [])"
    using h unfolding publishGoHomeMessage_fst publishGoHomeMessage_snd
    by (simp add: IHMCInterfaceNode.equality)
  finally show "publishGoHomeMessage ext s = (s\<lparr>publish_go_home_command := False\<rparr>, [])" .
next
  show "publishWholeBodyMessage rob ext (s\<lparr>publish_commands := b\<rparr>) =
     map_sum id (\<lambda>(s1, m). (s1\<lparr>publish_commands := b\<rparr>, m))
       (publishWholeBodyMessage rob ext s)"
    by (rule publishWholeBodyMessage_publish_flag)
next
  assume "\<not> getPublishCommandsFlag s \<and> \<not> getPublishGoHomeCommandFlag s"
  then show "main_loop_body rob ext s = Inr (s, [], False)"
    by (simp add: main_loop_body_def)
next
  fix s' out brk
  assume m: "main_loop_body rob ext s = Inr (s', out, brk)"
  {
    assume "\<exists>m. WholeBodyTrajectory m \<in> set out"
    with main_loop_body_published(1)[OF m] show "getPublishCommandsFlag s" by blast
  }
  {
    assume "\<exists>m. GoHome m \<in> set out"
    with main_loop_body_published(2)[OF m] show "getPublishGoHomeCommandFlag s" by blast
  }
qed

lemma streaming_home_chest_loop:
  "\<not> isl (main_loop_body example_robot example_external example_streaming_home_chest)"
  "map (\<lambda>m. case m of WholeBodyTrajectory w \<Rightarrow> 0 | GoHome g \<Rightarrow> (1::nat))
     (fst (snd (projr (main_loop_body example_robot example_external
        example_streaming_home_chest)))) = [0, 1]"
proof -
  have f: "commands_from_controllers example_streaming_home_chest = True"
  "publish_commands example_streaming_home_chest = True"
  "publish_go_home_command example_streaming_home_chest = True"
  "home_left_arm example_streaming_home_chest = False"
  "home_right_arm example_streaming_home_chest = False"
  "home_chest example_streaming_home_chest = True"
  "home_pelvis example_streaming_home_chest = False"
  "controlled_links example_streaming_home_chest = [0, 5]"
  "tf_pelvis_wrt_world example_streaming_home_chest =
     \<lparr> tf_origin = Vector3 1 2 3, tf_rotation = Quaternion 0 0 0 1 \<rparr>"
  "m_q_joint example_streaming_home_chest = [0, 0, 0, 0.5, 0, 0, 0.25, 0, 0, 0, 0, 0, 0]"
    by (simp_all add: example_streaming_home_chest_def example_ready_streaming_def node_defs
        example_defs Let_def eval_nat_numeral)
  have p: "\<not> isl (publishWholeBodyMessage example_robot example_external
                    example_streaming_home_chest)"
    by (simp add: publish_defs f example_defs Let_def eval_nat_numeral utility_defs)
  then obtain s1 m where r: "publishWholeBodyMessage example_robot example_external
                    example_streaming_home_chest = Inr (s1, m)"
    by (cases "publishWholeBodyMessage example_robot example_external
                    example_streaming_home_chest") auto
  from publishWholeBodyMessage_node[OF r] obtain v where
    v: "s1 = example_streaming_home_chest\<lparr>m_q := v\<rparr>" by blast
  show "\<not> isl (main_loop_body example_robot example_external example_streaming_home_chest)"
    by (simp add: main_loop_body_def r v f getCommandsFromControllersFlag_def
        getPublishCommandsFlag_def getPublishGoHomeCommandFlag_def split_beta)
  show "map (\<lambda>m. case m of WholeBodyTrajectory w \<Rightarrow> 0 | GoHome g \<Rightarrow> (1::nat))
     (fst (snd (projr (main_loop_body example_robot example_external
        example_streaming_home_chest)))) = [0, 1]"
    by (simp add: main_loop_body_def r v f getCommandsFromControllersFlag_def
        getPublishCommandsFlag_def getPublishGoHomeCommandFlag_def split_beta
        publishGoHomeMessage_snd)
qed

theorem readiness_is_checked_by_the_driver_witness:
  "\<not> getPublishCommandsFlag (constructNode example_robot True example_transform) \<and>
   \<not> getPublishGoHomeCommandFlag (constructNode example_robot True example_transform) \<and>
   publishGoHomeMessage example_external (constructNode example_robot True example_transform) =
     ((constructNode example_robot True example_transform)\<lparr>publish_go_home_command := False\<rparr>, []) \<and>
   main_loop_body example_robot example_external
     (constructNode example_robot True example_transform) =
     Inr (constructNode example_robot True example_transform, [], False) \<and>
   \<not> isl (main_loop_body example_robot example_external example_streaming_home_chest) \<and>
   map (\<lambda>m. case m of WholeBodyTrajectory w \<Rightarrow> 0 | GoHome g \<Rightarrow> (1::nat))
     (fst (snd (projr (main_loop_body example_robot example_external
        example_streaming_home_chest)))) = [0, 1] \<and>
   getPublishCommandsFlag example_streaming_home_chest \<and>
   getPublishGoHomeCommandFlag example_streaming_home_chest"
proof -
  let ?s0 = "constructNode example_robot True example_transform"
  let ?r = "main_loop_body example_robot example_external example_streaming_home_chest"
  have f0: "\<not> home_left_arm ?s0 \<and> \<not> home_right_arm ?s0 \<and> \<not> home_chest ?s0 \<and> \<not> home_pelvis ?s0"
    and g0: "\<not> getPublishCommandsFlag ?s0 \<and> \<not> getPublishGoHomeCommandFlag ?s0"
    by (simp_all add: constructNode_def getPublishCommandsFlag_def getPublishGoHomeCommandFlag_def)
  note t0 = readiness_is_checked_by_the_driver[of ?s0 example_external example_robot False]
  from t0 f0 have a: "publishGoHomeMessage example_external ?s0 =
     (?s0\<lparr>publish_go_home_command := False\<rparr>, [])" by blast
  from t0 g0 have b: "main_loop_body example_robot example_external ?s0 = Inr (?s0, [], False)"
    by blast
  from streaming_home_chest_loop(1) have r: "?r = Inr (fst (projr ?r), fst (snd (projr ?r)), snd (snd (projr ?r)))"
    by (cases ?r) auto
  have w: "\<exists>m. WholeBodyTrajectory m \<in> set (fst (snd (projr ?r)))"
    using streaming_home_chest_loop(2) by (auto split: published.splits)
  have g: "\<exists>m. GoHome m \<in> set (fst (snd (projr ?r)))"
    using streaming_home_chest_loop(2) by (auto split: published.splits)
  note t1 = readiness_is_checked_by_the_driver[of example_streaming_home_chest example_external
      example_robot False]
  from t1 r w have c: "getPublishCommandsFlag example_streaming_home_chest" by blast
  from t1 r g have d: "getPublishGoHomeCommandFlag example_streaming_home_chest" by blast
  from g0 a b streaming_home_chest_loop c d show ?thesis by simp
qed

end
